theory Spec2Isabelle
  imports Complex_Main
begin

section \<open>JavaScript values used by the tank\<close>

text \<open>
  A JavaScript number is modelled as a real number or one of the three special values.
  Finite doubles are idealised as reals (no rounding) and signed zeros are not
  distinguished. The timestamps of \<^verbatim>\<open>Date.now()\<close> are integers (milliseconds).
\<close>

datatype number = Num real | PosInfinity | NegInfinity | NaN

text \<open>\<^verbatim>\<open>a <= b\<close>: false as soon as one side is NaN.\<close>

fun js_le :: "number \<Rightarrow> number \<Rightarrow> bool" where
  "js_le NaN b = False"
| "js_le a NaN = False"
| "js_le NegInfinity b = True"
| "js_le a PosInfinity = True"
| "js_le (Num a) (Num b) = (a \<le> b)"
| "js_le a b = False"

text \<open>\<^verbatim>\<open>a >= b\<close>\<close>

definition js_ge :: "number \<Rightarrow> number \<Rightarrow> bool" where
  "js_ge a b = js_le b a"

text \<open>\<^verbatim>\<open>Math.min(a, b)\<close>: NaN if either argument is NaN.\<close>

definition Math_min :: "number \<Rightarrow> number \<Rightarrow> number" where
  "Math_min a b = (if a = NaN \<or> b = NaN then NaN else if js_le a b then a else b)"

text \<open>\<^verbatim>\<open>a / b\<close>: division by zero gives an infinity or NaN, never an exception.\<close>

fun js_div :: "number \<Rightarrow> number \<Rightarrow> number" where
  "js_div NaN b = NaN"
| "js_div a NaN = NaN"
| "js_div (Num a) (Num b) =
     (if b = 0 then (if a = 0 then NaN else if 0 < a then PosInfinity else NegInfinity)
      else Num (a / b))"
| "js_div (Num a) b = Num 0"
| "js_div PosInfinity (Num b) = (if 0 \<le> b then PosInfinity else NegInfinity)"
| "js_div NegInfinity (Num b) = (if 0 \<le> b then NegInfinity else PosInfinity)"
| "js_div a b = NaN"

text \<open>
  \<^verbatim>\<open>Date.now() - x\<close> where \<^verbatim>\<open>x\<close> is a timestamp or \<^verbatim>\<open>null\<close>:
  \<^verbatim>\<open>null\<close> (\<open>None\<close>) converts to 0.
\<close>

definition minus_nullable :: "int \<Rightarrow> int option \<Rightarrow> number" where
  "minus_nullable now x = Num (real_of_int (now - (case x of None \<Rightarrow> 0 | Some t \<Rightarrow> t)))"

text \<open>
  \<^verbatim>\<open>Date.now() - x\<close> where \<^verbatim>\<open>x\<close> is a timestamp or \<^verbatim>\<open>undefined\<close>:
  \<^verbatim>\<open>undefined\<close> (\<open>None\<close>) converts to NaN.
\<close>

definition minus_undefinable :: "int \<Rightarrow> int option \<Rightarrow> number" where
  "minus_undefinable now x = (case x of None \<Rightarrow> NaN | Some t \<Rightarrow> Num (real_of_int (now - t)))"

text \<open>
  What a call of a subscriber does, as far as the broadcaster can tell: it returns, or it
  throws a value. Subscribers do not call back into the broadcaster.
\<close>

datatype outcome = Returned | Threw string

text \<open>The values that can be handed to \<^verbatim>\<open>subscribe\<close>.\<close>

datatype jsvalue =
    JUndefined
  | JNull
  | JBoolean bool
  | JNumber number
  | JString string
  | JObject
  | JFunction "string \<Rightarrow> number \<Rightarrow> outcome"

fun typeof :: "jsvalue \<Rightarrow> string" where
  "typeof JUndefined = ''undefined''"
| "typeof JNull = ''object''"
| "typeof (JBoolean b) = ''boolean''"
| "typeof (JNumber n) = ''number''"
| "typeof (JString s) = ''string''"
| "typeof JObject = ''object''"
| "typeof (JFunction f) = ''function''"

text \<open>\<^verbatim>\<open>callback(stage, progress)\<close>: calling a value that is not a function throws a TypeError.\<close>

fun invoke :: "jsvalue \<Rightarrow> string \<Rightarrow> number \<Rightarrow> outcome" where
  "invoke (JFunction f) st p = f st p"
| "invoke v st p = Threw ''TypeError: callback is not a function''"

section \<open>tank-decay.js: the lifecycle controller\<close>

text \<open>
  The timers of the browser: \<^verbatim>\<open>setInterval\<close> returns a fresh handle greater than zero and
  registers the callback with its period, \<^verbatim>\<open>clearInterval\<close> removes the handle.
\<close>

datatype timer_callback = UpdateTick | FlickerTick

datatype console_entry = ConsoleLog string | ConsoleError string "string option"

text \<open>
  The fields of the \<^verbatim>\<open>tankDecay\<close> object, followed by the part of the environment its methods
  act on: the active interval timers, the last handle handed out, the console, and the log of
  the calls made to subscribers (value called, arguments, outcome).
\<close>

record tankDecay =
  stage :: string
  progress :: number
  lastInteraction :: "int option"
  timer :: "nat option"
  listeners :: "jsvalue list"
  flickerTimer :: "nat option"
  isFlickering :: bool
  flickerStartTime :: "int option"
  intervals :: "(nat \<times> timer_callback \<times> number) list"
  lastHandle :: nat
  console :: "console_entry list"
  delivered :: "(jsvalue \<times> string \<times> number \<times> outcome) list"

text \<open>The part of \<^verbatim>\<open>TANK_CONFIG\<close> the controller reads: \<^verbatim>\<open>timings.preservation\<close> and \<^verbatim>\<open>timings.flicker\<close>.\<close>

record timings =
  preservation :: number
  flicker :: number

definition TANK_CONFIG_timings :: timings where
  "TANK_CONFIG_timings = \<lparr> preservation = Num 300000, flicker = Num 10000 \<rparr>"

text \<open>The object literal: the state before any method has run.\<close>

definition tankDecay_init :: tankDecay where
  "tankDecay_init =
     \<lparr> stage = ''preservation'', progress = Num 0, lastInteraction = None, timer = None,
       listeners = [], flickerTimer = None, isFlickering = False, flickerStartTime = None,
       intervals = [], lastHandle = 0, console = [], delivered = [] \<rparr>"

definition setInterval :: "timer_callback \<Rightarrow> number \<Rightarrow> tankDecay \<Rightarrow> nat \<times> tankDecay" where
  "setInterval cb period s =
     (let h = Suc (lastHandle s)
      in (h, s\<lparr> lastHandle := h, intervals := intervals s @ [(h, cb, period)] \<rparr>))"

definition clearInterval :: "nat \<Rightarrow> tankDecay \<Rightarrow> tankDecay" where
  "clearInterval h s = s\<lparr> intervals := filter (\<lambda>e. fst e \<noteq> h) (intervals s) \<rparr>"

text \<open>\<^verbatim>\<open>if (this.timer)\<close>: \<^verbatim>\<open>null\<close> and the number 0 are falsy.\<close>

fun truthy :: "nat option \<Rightarrow> bool" where
  "truthy None = False"
| "truthy (Some h) = (h \<noteq> 0)"

text \<open>One round of the \<^verbatim>\<open>forEach\<close> of \<^verbatim>\<open>notify\<close>: the call in its \<^verbatim>\<open>try\<close>, the log in its \<^verbatim>\<open>catch\<close>.\<close>

definition notify_one :: "tankDecay \<Rightarrow> jsvalue \<Rightarrow> tankDecay" where
  "notify_one s callback =
     (case invoke callback (stage s) (progress s) of
        Returned \<Rightarrow>
          s\<lparr> delivered := delivered s @ [(callback, stage s, progress s, Returned)] \<rparr>
      | Threw e \<Rightarrow>
          s\<lparr> delivered := delivered s @ [(callback, stage s, progress s, Threw e)],
             console := console s @ [ConsoleError ''Listener error:'' (Some e)] \<rparr>)"

definition notify :: "tankDecay \<Rightarrow> tankDecay" where
  "notify s = foldl notify_one s (listeners s)"

definition startFlickerCycle :: "timings \<Rightarrow> tankDecay \<Rightarrow> tankDecay" where
  "startFlickerCycle cfg s =
     (let flickerInterval = flicker cfg;
          (h, s1) = setInterval FlickerTick flickerInterval s
      in s1\<lparr> flickerTimer := Some h \<rparr>)"

text \<open>\<open>now\<close> is the value \<^verbatim>\<open>Date.now()\<close> returns.\<close>

definition start :: "timings \<Rightarrow> int \<Rightarrow> tankDecay \<Rightarrow> tankDecay" where
  "start cfg now s =
     (let s1 = s\<lparr> stage := ''preservation'', lastInteraction := Some now, isFlickering := False \<rparr>;
          (h, s2) = setInterval UpdateTick (Num 100) s1;
          s3 = s2\<lparr> timer := Some h \<rparr>;
          s4 = startFlickerCycle cfg s3;
          s5 = notify s4
      in s5\<lparr> console := console s5 @ [ConsoleLog ''Tank preservation system started''] \<rparr>)"

definition reset :: "int \<Rightarrow> tankDecay \<Rightarrow> tankDecay" where
  "reset now s =
     (let s1 = s\<lparr> lastInteraction := Some now \<rparr>
      in if isFlickering s1
         then notify (s1\<lparr> isFlickering := False, stage := ''preservation'', progress := Num 0 \<rparr>)
         else s1)"

text \<open>
  \<open>now1\<close> and \<open>now2\<close> are the values of the first and of the second call of
  \<^verbatim>\<open>Date.now()\<close> in \<^verbatim>\<open>update\<close> (the second one is made in the flicker branch, and in the
  preservation branch when the cycle restarts).
\<close>

definition update :: "timings \<Rightarrow> int \<Rightarrow> int \<Rightarrow> tankDecay \<Rightarrow> tankDecay" where
  "update cfg now1 now2 s =
     (let elapsed = minus_nullable now1 (lastInteraction s)
      in if isFlickering s then
           (let flickerElapsed = minus_undefinable now2 (flickerStartTime s);
                s1 = s\<lparr> progress := Math_min (js_div flickerElapsed (Num 1000)) (Num 1) \<rparr>;
                s2 = (if js_ge (progress s1) (Num 1)
                      then s1\<lparr> isFlickering := False, stage := ''preservation'', progress := Num 0 \<rparr>
                      else s1)
            in notify s2)
         else
           (let s1 = s\<lparr> stage := ''preservation'' \<rparr>;
                preservationDuration = preservation cfg;
                s2 = s1\<lparr> progress := Math_min (js_div elapsed preservationDuration) (Num 1) \<rparr>;
                s3 = (if js_ge (progress s2) (Num 1)
                      then s2\<lparr> lastInteraction := Some now2, progress := Num 0 \<rparr>
                      else s2)
            in notify s3))"

definition triggerFlicker :: "int \<Rightarrow> tankDecay \<Rightarrow> tankDecay" where
  "triggerFlicker now s =
     (if isFlickering s then s
      else
        (let s1 = s\<lparr> isFlickering := True, flickerStartTime := Some now,
                      stage := ''flicker'', progress := Num 0 \<rparr>;
             s2 = notify s1
         in s2\<lparr> console := console s2 @ [ConsoleLog ''Tank flicker event''] \<rparr>))"

definition subscribe :: "jsvalue \<Rightarrow> tankDecay \<Rightarrow> tankDecay" where
  "subscribe callback s =
     (if typeof callback \<noteq> ''function''
      then s\<lparr> console := console s @ [ConsoleError ''Subscribe requires a function callback'' None] \<rparr>
      else s\<lparr> listeners := listeners s @ [callback] \<rparr>)"

definition setStage :: "string \<Rightarrow> number \<Rightarrow> tankDecay \<Rightarrow> tankDecay" where
  "setStage st p s = notify (s\<lparr> stage := st, progress := p \<rparr>)"

definition forceFlicker :: "int \<Rightarrow> tankDecay \<Rightarrow> tankDecay" where
  "forceFlicker now s = triggerFlicker now s"

text \<open>The two \<^verbatim>\<open>if (handle) { clearInterval(handle); handle = null; }\<close> blocks shared by \<^verbatim>\<open>pause\<close> and \<^verbatim>\<open>destroy\<close>.\<close>

definition clear_timer :: "tankDecay \<Rightarrow> tankDecay" where
  "clear_timer s =
     (if truthy (timer s) then (clearInterval (the (timer s)) s)\<lparr> timer := None \<rparr> else s)"

definition clear_flickerTimer :: "tankDecay \<Rightarrow> tankDecay" where
  "clear_flickerTimer s =
     (if truthy (flickerTimer s)
      then (clearInterval (the (flickerTimer s)) s)\<lparr> flickerTimer := None \<rparr> else s)"

definition pause :: "tankDecay \<Rightarrow> tankDecay" where
  "pause s =
     (let s1 = clear_timer s;
          s2 = clear_flickerTimer s1
      in s2\<lparr> console := console s2 @ [ConsoleLog ''Tank preservation paused''] \<rparr>)"

definition resume :: "timings \<Rightarrow> tankDecay \<Rightarrow> tankDecay" where
  "resume cfg s =
     (let s1 = (if \<not> truthy (timer s)
                then (let (h, s') = setInterval UpdateTick (Num 100) s in s'\<lparr> timer := Some h \<rparr>)
                else s);
          s2 = (if \<not> truthy (flickerTimer s1) then startFlickerCycle cfg s1 else s1)
      in s2\<lparr> console := console s2 @ [ConsoleLog ''Tank preservation resumed''] \<rparr>)"

definition destroy :: "tankDecay \<Rightarrow> tankDecay" where
  "destroy s =
     (let s1 = clear_timer s;
          s2 = clear_flickerTimer s1;
          s3 = s2\<lparr> listeners := [], stage := ''preservation'', isFlickering := False \<rparr>
      in s3\<lparr> console := console s3 @ [ConsoleLog ''Tank preservation system shutdown''] \<rparr>)"

subsection \<open>Notions used to state the broadcaster's properties\<close>

text \<open>The calls one notification pass makes: each listener in list order, with the given pair.\<close>

definition calls_of ::
  "string \<Rightarrow> number \<Rightarrow> jsvalue list \<Rightarrow> (jsvalue \<times> string \<times> number \<times> outcome) list" where
  "calls_of st p cbs = map (\<lambda>cb. (cb, st, p, invoke cb st p)) cbs"

text \<open>The console line a call leaves behind: none when it returned, the caught error when it threw.\<close>

fun error_of :: "(jsvalue \<times> string \<times> number \<times> outcome) \<Rightarrow> console_entry option" where
  "error_of (cb, st, p, Returned) = None"
| "error_of (cb, st, p, Threw e) = Some (ConsoleError ''Listener error:'' (Some e))"

text \<open>No handle held by the object is the falsy number 0 (\<^verbatim>\<open>setInterval\<close> never returns 0).\<close>

definition timers_ok :: "tankDecay \<Rightarrow> bool" where
  "timers_ok s = (timer s \<noteq> Some 0 \<and> flickerTimer s \<noteq> Some 0)"

text \<open>
  The object holds the handle of every timer that is active. This is so after one
  \<^verbatim>\<open>start\<close>; a second \<^verbatim>\<open>start\<close> overwrites the two handles and leaves the old timers running.
\<close>

definition holds_all_timers :: "tankDecay \<Rightarrow> bool" where
  "holds_all_timers s =
     list_all (\<lambda>e. Some (fst e) = timer s \<or> Some (fst e) = flickerTimer s) (intervals s)"

text \<open>Every registered listener is a function.\<close>

definition functions_only :: "tankDecay \<Rightarrow> bool" where
  "functions_only s = list_all (\<lambda>cb. typeof cb = ''function'') (listeners s)"

text \<open>
  The calls of the object's methods, by the page or by its two timers, with the values
  \<^verbatim>\<open>Date.now()\<close> returns during the call.
\<close>

datatype action =
    Start int
  | Reset int
  | Update int int
  | TriggerFlicker int
  | Subscribe jsvalue
  | SetStage string number
  | ForceFlicker int
  | Pause
  | Resume
  | Destroy

fun step :: "timings \<Rightarrow> tankDecay \<Rightarrow> action \<Rightarrow> tankDecay" where
  "step cfg s (Start now) = start cfg now s"
| "step cfg s (Reset now) = reset now s"
| "step cfg s (Update now1 now2) = update cfg now1 now2 s"
| "step cfg s (TriggerFlicker now) = triggerFlicker now s"
| "step cfg s (Subscribe callback) = subscribe callback s"
| "step cfg s (SetStage st p) = setStage st p s"
| "step cfg s (ForceFlicker now) = forceFlicker now s"
| "step cfg s Pause = pause s"
| "step cfg s Resume = resume cfg s"
| "step cfg s Destroy = destroy s"

definition run :: "timings \<Rightarrow> tankDecay \<Rightarrow> action list \<Rightarrow> tankDecay" where
  "run cfg s acts = foldl (step cfg) s acts"

text \<open>
  A timeline is a list of calls with the time at which each one happens. Between two calls
  the object does not change, so its state at time \<open>t\<close> is the state after the calls that
  happened up to \<open>t\<close>.
\<close>

definition stateAt :: "timings \<Rightarrow> tankDecay \<Rightarrow> (int \<times> action) list \<Rightarrow> int \<Rightarrow> tankDecay" where
  "stateAt cfg s timeline t = run cfg s (map snd (filter (\<lambda>e. fst e \<le> t) timeline))"

text \<open>The heartbeat of \<^verbatim>\<open>start\<close>: \<open>n\<close> calls of \<^verbatim>\<open>update\<close>, 100 ms apart, the first at \<open>t0 + 100\<close>.\<close>

definition heartbeat :: "int \<Rightarrow> nat \<Rightarrow> (int \<times> action) list" where
  "heartbeat t0 n =
     map (\<lambda>k. (t0 + 100 * int k, Update (t0 + 100 * int k) (t0 + 100 * int k))) [1..<Suc n]"

text \<open>A run of heartbeat updates only, each given by the two clock values it reads.\<close>

definition updates :: "timings \<Rightarrow> tankDecay \<Rightarrow> (int \<times> int) list \<Rightarrow> tankDecay" where
  "updates cfg s ticks = foldl (\<lambda>s' nn. update cfg (fst nn) (snd nn) s') s ticks"

subsection \<open>Example inputs\<close>

definition listener_ok :: jsvalue where
  "listener_ok = JFunction (\<lambda>st p. Returned)"

definition listener_throwing :: jsvalue where
  "listener_throwing = JFunction (\<lambda>st p. Threw ''boom'')"

text \<open>A broadcaster started at time 0 with the configuration of \<^verbatim>\<open>tank-config.js\<close>.\<close>

definition started :: tankDecay where
  "started = start TANK_CONFIG_timings 0 tankDecay_init"

text \<open>The same, with three subscribers registered before the start; the second one throws.\<close>

definition started_with_listeners :: tankDecay where
  "started_with_listeners =
     start TANK_CONFIG_timings 0
       (subscribe listener_ok (subscribe listener_throwing (subscribe listener_ok tankDecay_init)))"

section \<open>tank-beam.js: the collision detection of the scanning beam\<close>

text \<open>
  The fields of a \<^verbatim>\<open>DOMRect\<close> the code reads. A rectangle returned by
  \<^verbatim>\<open>getBoundingClientRect\<close> has a height that is not negative and a bottom that is its top
  plus its height.
\<close>

record DOMRect =
  rect_top :: real
  rect_bottom :: real
  rect_height :: real

definition rect_ok :: "DOMRect \<Rightarrow> bool" where
  "rect_ok r = (0 \<le> rect_height r \<and> rect_bottom r = rect_top r + rect_height r)"

text \<open>\<^verbatim>\<open>classList.add\<close> and \<^verbatim>\<open>classList.remove\<close> on the ordered set of class names.\<close>

definition classList_add :: "string \<Rightarrow> string list \<Rightarrow> string list" where
  "classList_add c cs = (if c \<in> set cs then cs else cs @ [c])"

definition classList_remove :: "string \<Rightarrow> string list \<Rightarrow> string list" where
  "classList_remove c cs = filter (\<lambda>x. x \<noteq> c) cs"

text \<open>
  An element found by the \<^verbatim>\<open>querySelectorAll\<close> of the tick: its bounding rectangle at this
  tick, its class list, and the \<^verbatim>\<open>style.opacity\<close> of its \<^verbatim>\<open>.membrane-organism\<close> child when it
  has one.
\<close>

record target =
  rect :: DOMRect
  classList :: "string list"
  organism :: "string option"

record window =
  scrollY :: real
  innerHeight :: real
  innerWidth :: real

text \<open>
  The fields of \<^verbatim>\<open>TankBeamModule\<close> the tick uses: the pause flag, the bounding rectangle of
  the beam body at this tick (\<open>None\<close> when \<^verbatim>\<open>this.body\<close> is \<^verbatim>\<open>null\<close>), and the class lists of the
  glow and of the hotspot.
\<close>

record TankBeamModule =
  isPaused :: bool
  body :: "DOMRect option"
  glow :: "string list"
  hotspot :: "string list"

text \<open>The two constants \<^verbatim>\<open>startCollisionDetection\<close> fixes before it starts the timer.\<close>

definition isMobile :: "window \<Rightarrow> bool" where
  "isMobile w = (innerWidth w < 768)"

definition checkInterval :: "window \<Rightarrow> nat" where
  "checkInterval w = (if isMobile w then 50 else 25)"

text \<open>
  The body of \<^verbatim>\<open>targets.forEach\<close> for one target. The accumulator is the module with the
  local \<^verbatim>\<open>hitSomething\<close>; the early \<^verbatim>\<open>return\<close> leaves everything as it is.
\<close>

definition checkTarget ::
  "real \<Rightarrow> real \<Rightarrow> real \<Rightarrow> real \<Rightarrow> TankBeamModule \<times> bool \<Rightarrow> target
     \<Rightarrow> (TankBeamModule \<times> bool) \<times> target" where
  "checkTarget beamY viewportTop viewportBottom scroll acc tg =
     (let elementTop = rect_top (rect tg) + scroll
      in if elementTop < viewportTop \<or> elementTop > viewportBottom then (acc, tg)
         else
           (let targetY = rect_top (rect tg) + rect_height (rect tg) / 2;
                minHeight = 40;
                effectiveHeight = max (rect_height (rect tg)) minHeight;
                padding = (effectiveHeight - rect_height (rect tg)) / 2;
                topBound = rect_top (rect tg) - padding;
                bottomBound = rect_bottom (rect tg) + padding;
                isInBounds = (beamY \<ge> topBound \<and> beamY \<le> bottomBound);
                distance = \<bar>beamY - targetY\<bar>
            in if isInBounds \<and> distance < 60 then
                 (let b1 = (fst acc)\<lparr> glow := classList_add ''approaching'' (glow (fst acc)) \<rparr>;
                      t1 = tg\<lparr> classList := classList_add ''beam-approaching'' (classList tg) \<rparr>
                  in if distance < max 20 (rect_height (rect tg) / 2) then
                       ((b1\<lparr> hotspot := classList_add ''active'' (hotspot b1) \<rparr>, True),
                        t1\<lparr> classList := classList_add ''beam-contact'' (classList t1),
                            organism := map_option (\<lambda>old. ''1'') (organism t1) \<rparr>)
                     else
                       ((b1, snd acc),
                        t1\<lparr> classList := classList_remove ''beam-contact'' (classList t1),
                            organism := map_option (\<lambda>old. ''0.3'') (organism t1) \<rparr>))
               else
                 (acc,
                  tg\<lparr> classList := classList_remove ''beam-approaching''
                                      (classList_remove ''beam-contact'' (classList tg)),
                      organism := map_option (\<lambda>old. ''0'') (organism tg) \<rparr>)))"

text \<open>\<^verbatim>\<open>targets.forEach\<close>: the targets one after the other, in document order.\<close>

fun checkTargets ::
  "real \<Rightarrow> real \<Rightarrow> real \<Rightarrow> real \<Rightarrow> TankBeamModule \<times> bool \<Rightarrow> target list
     \<Rightarrow> (TankBeamModule \<times> bool) \<times> target list" where
  "checkTargets beamY viewportTop viewportBottom scroll acc [] = (acc, [])"
| "checkTargets beamY viewportTop viewportBottom scroll acc (tg # tgs) =
     (let (acc1, tg') = checkTarget beamY viewportTop viewportBottom scroll acc tg;
          (acc2, tgs') = checkTargets beamY viewportTop viewportBottom scroll acc1 tgs
      in (acc2, tg' # tgs'))"

text \<open>
  One run of the interval callback of \<^verbatim>\<open>startCollisionDetection\<close>: \<open>mobile\<close> is the constant
  \<^verbatim>\<open>isMobile\<close> fixed at the start, \<open>targets\<close> the elements the selector finds at this tick.
\<close>

definition collisionTick ::
  "bool \<Rightarrow> window \<Rightarrow> TankBeamModule \<Rightarrow> target list \<Rightarrow> TankBeamModule \<times> target list" where
  "collisionTick mobile w b targets =
     (case body b of
        None \<Rightarrow> (b, targets)
      | Some beamRect \<Rightarrow>
          if isPaused b then (b, targets)
          else
            (let beamY = rect_top beamRect + rect_height beamRect / 2;
                 buffer = (if mobile then 100 else 200);
                 viewportTop = scrollY w - buffer;
                 viewportBottom = scrollY w + innerHeight w + buffer;
                 ((b1, hitSomething), targets') =
                    checkTargets beamY viewportTop viewportBottom (scrollY w) (b, False) targets;
                 b2 = (if \<not> hitSomething
                       then b1\<lparr> hotspot := classList_remove ''active'' (hotspot b1),
                                glow := classList_remove ''approaching'' (glow b1) \<rparr>
                       else b1)
             in (b2, targets')))"

subsection \<open>Notions used to state the properties of the tick\<close>

text \<open>The scan coordinate of a tick: the vertical centre of the beam body.\<close>

definition scanY :: "DOMRect \<Rightarrow> real" where
  "scanY beamRect = rect_top beamRect + rect_height beamRect / 2"

text \<open>The test of the early \<^verbatim>\<open>return\<close>: the target is outside the widened viewport.\<close>

definition pruned :: "bool \<Rightarrow> window \<Rightarrow> target \<Rightarrow> bool" where
  "pruned mobile w tg =
     (rect_top (rect tg) + scrollY w < scrollY w - (if mobile then 100 else 200)
      \<or> rect_top (rect tg) + scrollY w > scrollY w + innerHeight w + (if mobile then 100 else 200))"

text \<open>A target is classified as contact when the tick leaves it with the class \<^verbatim>\<open>beam-contact\<close>.\<close>

definition in_contact :: "target \<Rightarrow> bool" where
  "in_contact tg = (''beam-contact'' \<in> set (classList tg))"

subsection \<open>Example inputs\<close>

definition desktop :: window where
  "desktop = \<lparr> scrollY = 0, innerHeight = 800, innerWidth = 1280 \<rparr>"

definition beam_at :: "real \<Rightarrow> TankBeamModule" where
  "beam_at y = \<lparr> isPaused = False,
                 body = Some \<lparr> rect_top = y - 1, rect_bottom = y + 1, rect_height = 2 \<rparr>,
                 glow = [], hotspot = [] \<rparr>"

text \<open>The region of the specification's scenario: top 100, bottom 140.\<close>

definition title_target :: target where
  "title_target = \<lparr> rect = \<lparr> rect_top = 100, rect_bottom = 140, rect_height = 40 \<rparr>,
                    classList = [''archive-title''], organism = None \<rparr>"

text \<open>A membrane 200 pixels high: top 100, bottom 300, centre 200.\<close>

definition tall_membrane :: target where
  "tall_membrane = \<lparr> rect = \<lparr> rect_top = 100, rect_bottom = 300, rect_height = 200 \<rparr>,
                     classList = [''membrane''], organism = Some ''0'' \<rparr>"

section \<open>tank-audio.js: the beam interaction tracking of \<^verbatim>\<open>integrateTankAudio\<close>\<close>


text \<open>An element of the two \<^verbatim>\<open>querySelectorAll\<close> lists, with its bounding rectangle at this tick.\<close>

record element =
  className :: string
  textContent :: string
  boundingRect :: DOMRect



text \<open>
  What one tick finds: the beam body and the audio toggle (\<open>None\<close> when
  \<^verbatim>\<open>getElementById\<close> returns \<^verbatim>\<open>null\<close>) and the two element lists; every element comes with
  the value \<^verbatim>\<open>Date.now()\<close> returns if the callback asks for the time while it handles it.
\<close>

record tick_input =
  beam :: "DOMRect option"
  audioToggle :: "DOMRect option"
  impactElements :: "(element \<times> int) list"
  fizzElements :: "(element \<times> int) list"







subsection \<open>Notions used to state the cooldown\<close>








subsection \<open>The two loops on the same elements\<close>





subsection \<open>Example inputs\<close>










section \<open>tank-specimens.js: the specimen registry\<close>

text \<open>
  The fields of a registry entry that \<^verbatim>\<open>getById\<close> and \<^verbatim>\<open>getPopupContent\<close> read
  (\<^verbatim>\<open>color\<close>, \<^verbatim>\<open>behaviors\<close>, \<^verbatim>\<open>preview\<close> and \<^verbatim>\<open>metadata\<close> are left out). \<^verbatim>\<open>null\<close> is \<open>None\<close>.
\<close>

record specimen =
  specimen_id :: int
  code :: string
  status :: string
  deployed :: "string option"
  classification :: "string option"
  description :: "string option"
  warning :: "string option"
  password :: "string option"
  url :: "string option"

record button =
  button_text :: string
  button_action :: string
  button_primary :: bool

text \<open>The object \<^verbatim>\<open>getPopupContent\<close> returns.\<close>

record popup =
  popup_title :: string
  popup_code :: string
  popup_status :: string
  popup_classification :: "string option"
  popup_deployed :: "string option"
  popup_description :: "string option"
  popup_warning :: "string option"
  popup_password :: "string option"
  popup_url :: "string option"
  popup_buttons :: "button list"

text \<open>The \<^verbatim>\<open>SPECIMENS\<close> object: its only data is the registry.\<close>

record SPECIMENS =
  registry :: "specimen list"

text \<open>\<^verbatim>\<open>toUpperCase\<close> on the letters a to z (the status strings of the registry are ASCII).\<close>

definition toUpperCase :: "string \<Rightarrow> string" where
  "toUpperCase s =
     map (\<lambda>c. if 97 \<le> (of_char c :: nat) \<and> (of_char c :: nat) \<le> 122
               then char_of ((of_char c :: nat) - 32) else c) s"

text \<open>\<^verbatim>\<open>this.registry.find(specimen => specimen.id === id)\<close>: the first match, \<open>None\<close> for \<^verbatim>\<open>undefined\<close>.\<close>

definition getById :: "SPECIMENS \<Rightarrow> int \<Rightarrow> specimen option" where
  "getById S i = find (\<lambda>specimen. specimen_id specimen = i) (registry S)"

definition getActive :: "SPECIMENS \<Rightarrow> specimen list" where
  "getActive S = filter (\<lambda>specimen. status specimen = ''contained'') (registry S)"

definition getEmpty :: "SPECIMENS \<Rightarrow> specimen list" where
  "getEmpty S = filter (\<lambda>specimen. status specimen = ''vacant'') (registry S)"

definition countActive :: "SPECIMENS \<Rightarrow> nat" where
  "countActive S = length (getActive S)"

text \<open>
  \<^verbatim>\<open>getPopupContent\<close> returns the popup, or \<open>None\<close> for \<^verbatim>\<open>null\<close>, together with the
  \<^verbatim>\<open>SPECIMENS\<close> object as the call leaves it: the method assigns nothing.
\<close>

definition getPopupContent :: "SPECIMENS \<Rightarrow> int \<Rightarrow> popup option \<times> SPECIMENS" where
  "getPopupContent S i =
     (case getById S i of
        None \<Rightarrow> (None, S)
      | Some specimen \<Rightarrow>
          if status specimen = ''vacant'' then (None, S)
          else
            (Some \<lparr> popup_title = ''SPECIMEN CONTAINMENT PROTOCOL'',
                    popup_code = code specimen,
                    popup_status = toUpperCase (status specimen),
                    popup_classification = classification specimen,
                    popup_deployed = deployed specimen,
                    popup_description = description specimen,
                    popup_warning = warning specimen,
                    popup_password = password specimen,
                    popup_url = url specimen,
                    popup_buttons =
                      [\<lparr> button_text = ''OBSERVE SPECIMEN'', button_action = ''navigate'',
                         button_primary = True \<rparr>,
                       \<lparr> button_text = ''CANCEL'', button_action = ''close'',
                         button_primary = False \<rparr>] \<rparr>,
             S))"

subsection \<open>The registries of the three versions of the file\<close>

text \<open>
  The free text of the entries (descriptions, warnings and the password) contains characters
  outside ASCII and plays no part in the lookups; it is a parameter of the registries.
\<close>

record prose =
  description_847T :: string
  warning_847T :: string
  description_575E :: string
  warning_575E :: string
  description_EROI :: string
  warning_EROI :: string
  wave_password :: string

definition LEAK_WORM_847T :: "prose \<Rightarrow> specimen" where
  "LEAK_WORM_847T tx =
     \<lparr> specimen_id = 1, code = ''LEAK-WORM-847T'', status = ''contained'',
       deployed = Some ''October 2025'', classification = Some ''Interactive Narrative'',
       description = Some (description_847T tx), warning = Some (warning_847T tx),
       password = Some (wave_password tx), url = Some ''/leak-worm-847t/'' \<rparr>"

text \<open>The second entry; its password is \<^verbatim>\<open>null\<close> from version 3.2 on.\<close>

definition LEAK_WORM_575E :: "prose \<Rightarrow> string option \<Rightarrow> specimen" where
  "LEAK_WORM_575E tx pw =
     \<lparr> specimen_id = 2, code = ''LEAK-WORM-575E'', status = ''contained'',
       deployed = Some ''October 2025'', classification = Some ''Interactive Narrative'',
       description = Some (description_575E tx), warning = Some (warning_575E tx),
       password = pw, url = Some ''https://lookaway-archive.github.io/leak-worm-575E/'' \<rparr>"

definition LEAK_WORM_EROI :: "prose \<Rightarrow> specimen" where
  "LEAK_WORM_EROI tx =
     \<lparr> specimen_id = 3, code = ''LEAK-WORM-EROI'', status = ''contained'',
       deployed = Some ''February 2026'', classification = Some ''Visual Philosophy Document'',
       description = Some (description_EROI tx), warning = Some (warning_EROI tx),
       password = None, url = Some ''https://lookaway-archive.github.io/leak-worm-EROI/'' \<rparr>"

text \<open>The object the \<^verbatim>\<open>map\<close> callback builds for a vacant slot.\<close>

definition vacant_slot :: "int \<Rightarrow> specimen" where
  "vacant_slot i =
     \<lparr> specimen_id = i, code = ''[EMPTY]'', status = ''vacant'', deployed = None,
       classification = None, description = None, warning = None, password = None,
       url = None \<rparr>"

text \<open>\<^verbatim>\<open>...Array(n).fill(null).map((_, i) => ({ id: i + first, ... }))\<close>\<close>

definition vacant_slots :: "nat \<Rightarrow> int \<Rightarrow> specimen list" where
  "vacant_slots n first = map (\<lambda>i. vacant_slot (int i + first)) [0..<n]"

text \<open>Version 3.0: one specimen, eleven vacant slots.\<close>

definition SPECIMENS_v30 :: "prose \<Rightarrow> SPECIMENS" where
  "SPECIMENS_v30 tx = \<lparr> registry = [LEAK_WORM_847T tx] @ vacant_slots 11 2 \<rparr>"

text \<open>Version 3.1 (\<^verbatim>\<open>tank-specimens.js\<close>): two specimens, ten vacant slots.\<close>

definition SPECIMENS_v31 :: "prose \<Rightarrow> SPECIMENS" where
  "SPECIMENS_v31 tx =
     \<lparr> registry = [LEAK_WORM_847T tx, LEAK_WORM_575E tx (Some (wave_password tx))]
                  @ vacant_slots 10 3 \<rparr>"

text \<open>Version 3.2: three specimens, nine vacant slots.\<close>

definition SPECIMENS_v32 :: "prose \<Rightarrow> SPECIMENS" where
  "SPECIMENS_v32 tx =
     \<lparr> registry = [LEAK_WORM_847T tx, LEAK_WORM_575E tx None, LEAK_WORM_EROI tx]
                  @ vacant_slots 9 4 \<rparr>"

subsection \<open>Notions used to state the properties of the lookups\<close>

text \<open>
  What \<^verbatim>\<open>validate\<close> checks about ids and statuses, without the counts: no id occurs twice,
  and every status is one of the two the registry knows.
\<close>

definition registry_ok :: "SPECIMENS \<Rightarrow> bool" where
  "registry_ok S =
     (distinct (map specimen_id (registry S))
      \<and> list_all (\<lambda>specimen. status specimen = ''contained'' \<or> status specimen = ''vacant'')
           (registry S))"

text \<open>Some prose, for the examples.\<close>

definition sample_prose :: prose where
  "sample_prose =
     \<lparr> description_847T = ''d1'', warning_847T = ''w1'', description_575E = ''d2'',
       warning_575E = ''w2'', description_EROI = ''d3'', warning_EROI = ''w3'',
       wave_password = ''pw'' \<rparr>"

section \<open>Properties of the lifecycle controller\<close>

subsection \<open>The notification pass\<close>

lemma notify_one_frame:
  "stage (notify_one s cb) = stage s" "progress (notify_one s cb) = progress s"
  "listeners (notify_one s cb) = listeners s" "timer (notify_one s cb) = timer s"
  "flickerTimer (notify_one s cb) = flickerTimer s" "isFlickering (notify_one s cb) = isFlickering s"
  "lastInteraction (notify_one s cb) = lastInteraction s"
  "flickerStartTime (notify_one s cb) = flickerStartTime s"
  "intervals (notify_one s cb) = intervals s" "lastHandle (notify_one s cb) = lastHandle s"
  by (simp_all add: notify_one_def split: outcome.splits)

lemma notify_one_delivered:
  "delivered (notify_one s cb) = delivered s @ calls_of (stage s) (progress s) [cb]"
  by (simp add: notify_one_def calls_of_def split: outcome.splits)

lemma notify_one_console:
  "console (notify_one s cb)
     = console s @ List.map_filter error_of (calls_of (stage s) (progress s) [cb])"
  by (simp add: notify_one_def calls_of_def List.map_filter_def split: outcome.splits)

lemma foldl_notify_one_frame:
  "stage (foldl notify_one s cbs) = stage s" "progress (foldl notify_one s cbs) = progress s"
  "listeners (foldl notify_one s cbs) = listeners s" "timer (foldl notify_one s cbs) = timer s"
  "flickerTimer (foldl notify_one s cbs) = flickerTimer s"
  "isFlickering (foldl notify_one s cbs) = isFlickering s"
  "lastInteraction (foldl notify_one s cbs) = lastInteraction s"
  "flickerStartTime (foldl notify_one s cbs) = flickerStartTime s"
  "intervals (foldl notify_one s cbs) = intervals s"
  "lastHandle (foldl notify_one s cbs) = lastHandle s"
  by (induction cbs arbitrary: s; simp add: notify_one_frame)+

lemma foldl_notify_one_delivered:
  "delivered (foldl notify_one s cbs) = delivered s @ calls_of (stage s) (progress s) cbs"
proof (induction cbs arbitrary: s)
  case Nil
  then show ?case by (simp add: calls_of_def)
next
  case (Cons cb cbs)
  have "calls_of (stage s) (progress s) (cb # cbs)
      = calls_of (stage s) (progress s) [cb] @ calls_of (stage s) (progress s) cbs"
    by (simp add: calls_of_def)
  then show ?case
    by (simp add: Cons.IH notify_one_frame notify_one_delivered)
qed

lemma foldl_notify_one_console:
  "console (foldl notify_one s cbs)
     = console s @ List.map_filter error_of (calls_of (stage s) (progress s) cbs)"
proof (induction cbs arbitrary: s)
  case Nil
  then show ?case by (simp add: calls_of_def List.map_filter_def)
next
  case (Cons cb cbs)
  have "List.map_filter error_of (calls_of (stage s) (progress s) (cb # cbs))
      = List.map_filter error_of (calls_of (stage s) (progress s) [cb])
        @ List.map_filter error_of (calls_of (stage s) (progress s) cbs)"
    by (simp add: calls_of_def List.map_filter_def)
  then show ?case
    by (simp add: Cons.IH notify_one_frame notify_one_console)
qed

lemma notify_frame:
  "stage (notify s) = stage s" "progress (notify s) = progress s"
  "listeners (notify s) = listeners s" "timer (notify s) = timer s"
  "flickerTimer (notify s) = flickerTimer s" "isFlickering (notify s) = isFlickering s"
  "lastInteraction (notify s) = lastInteraction s"
  "flickerStartTime (notify s) = flickerStartTime s"
  "intervals (notify s) = intervals s" "lastHandle (notify s) = lastHandle s"
  by (simp_all add: notify_def foldl_notify_one_frame)

lemma notify_delivered:
  "delivered (notify s) = delivered s @ calls_of (stage s) (progress s) (listeners s)"
  by (simp add: notify_def foldl_notify_one_delivered)

lemma notify_console:
  "console (notify s)
     = console s @ List.map_filter error_of (calls_of (stage s) (progress s) (listeners s))"
  by (simp add: notify_def foldl_notify_one_console)

subsection \<open>One heartbeat\<close>

lemma js_ge_Num: "js_ge (Num a) (Num b) = (b \<le> a)"
  by (simp add: js_ge_def)

lemma Math_min_Num: "Math_min (Num a) (Num b) = Num (min a b)"
  by (simp add: Math_min_def min_def)

lemma update_preservation:
  assumes nf: "\<not> isFlickering s" and C: "preservation cfg = Num C" and pos: "0 < C"
  shows "let t = real_of_int (now1 - (case lastInteraction s of None \<Rightarrow> 0 | Some b \<Rightarrow> b));
             s' = update cfg now1 now2 s
         in progress s' = (if t < C then Num (t / C) else Num 0)
          \<and> lastInteraction s' = (if t < C then lastInteraction s else Some now2)
          \<and> stage s' = ''preservation'' \<and> \<not> isFlickering s'
          \<and> listeners s' = listeners s
          \<and> delivered s' = delivered s @ calls_of ''preservation'' (progress s') (listeners s)"
proof -
  define t where "t = real_of_int (now1 - (case lastInteraction s of None \<Rightarrow> 0 | Some b \<Rightarrow> b))"
  define p where "p = Math_min (js_div (minus_nullable now1 (lastInteraction s)) (preservation cfg)) (Num 1)"
  have d: "js_div (minus_nullable now1 (lastInteraction s)) (preservation cfg) = Num (t / C)"
    using pos by (simp add: minus_nullable_def C t_def)
  have p: "p = Num (min (t / C) 1)"
    unfolding p_def d by (rule Math_min_Num)
  have g: "js_ge p (Num 1) = (C \<le> t)"
    using pos by (simp add: p js_ge_Num min_def pos_le_divide_eq)
  have u: "update cfg now1 now2 s =
        notify (if C \<le> t
                then s\<lparr> stage := ''preservation'', lastInteraction := Some now2, progress := Num 0 \<rparr>
                else s\<lparr> stage := ''preservation'', progress := p \<rparr>)"
    using nf by (simp add: update_def Let_def p_def[symmetric] g)
  show ?thesis
  proof (cases "t < C")
    case True
    then have "p = Num (t / C)" using pos by (simp add: p min_def pos_divide_le_eq)
    with True show ?thesis
      unfolding Let_def t_def[symmetric] u using nf
      by (simp add: notify_frame notify_delivered)
  next
    case False
    then show ?thesis
      unfolding Let_def t_def[symmetric] u using nf
      by (simp add: notify_frame notify_delivered)
  qed
qed

lemma update_flicker:
  assumes f: "isFlickering s" and st: "flickerStartTime s = Some t0"
  shows "let e = real_of_int (now2 - t0); s' = update cfg now1 now2 s
         in isFlickering s' = (e < 1000)
          \<and> stage s' = (if e < 1000 then stage s else ''preservation'')
          \<and> progress s' = (if e < 1000 then Num (e / 1000) else Num 0)
          \<and> flickerStartTime s' = Some t0
          \<and> listeners s' = listeners s
          \<and> delivered s' = delivered s @ calls_of (stage s') (progress s') (listeners s)"
proof -
  define e where "e = real_of_int (now2 - t0)"
  define p where "p = Math_min (js_div (minus_undefinable now2 (flickerStartTime s)) (Num 1000)) (Num 1)"
  have d: "js_div (minus_undefinable now2 (flickerStartTime s)) (Num 1000) = Num (e / 1000)"
    by (simp add: minus_undefinable_def st e_def)
  have p: "p = Num (min (e / 1000) 1)"
    unfolding p_def d by (rule Math_min_Num)
  have g: "js_ge p (Num 1) = (1000 \<le> e)"
    by (simp add: p js_ge_Num min_def)
  have u: "update cfg now1 now2 s =
        notify (if 1000 \<le> e
                then s\<lparr> isFlickering := False, stage := ''preservation'', progress := Num 0 \<rparr>
                else s\<lparr> progress := p \<rparr>)"
    using f by (simp add: update_def Let_def p_def[symmetric] g)
  show ?thesis
  proof (cases "e < 1000")
    case True
    then have "p = Num (e / 1000)" by (simp add: p min_def)
    with True show ?thesis
      unfolding Let_def e_def[symmetric] u using f st
      by (simp add: notify_frame notify_delivered)
  next
    case False
    then show ?thesis
      unfolding Let_def e_def[symmetric] u using f st
      by (simp add: notify_frame notify_delivered)
  qed
qed

lemma triggerFlicker_enter:
  assumes "\<not> isFlickering s"
  shows "isFlickering (triggerFlicker now s) \<and> flickerStartTime (triggerFlicker now s) = Some now
       \<and> stage (triggerFlicker now s) = ''flicker'' \<and> progress (triggerFlicker now s) = Num 0
       \<and> listeners (triggerFlicker now s) = listeners s
       \<and> delivered (triggerFlicker now s) = delivered s @ calls_of ''flicker'' (Num 0) (listeners s)"
  using assms by (simp add: triggerFlicker_def Let_def notify_frame notify_delivered)

subsection \<open>Timers\<close>

lemma clear_timer_fields:
  "stage (clear_timer s) = stage s" "progress (clear_timer s) = progress s"
  "listeners (clear_timer s) = listeners s" "isFlickering (clear_timer s) = isFlickering s"
  "lastInteraction (clear_timer s) = lastInteraction s"
  "flickerStartTime (clear_timer s) = flickerStartTime s"
  "flickerTimer (clear_timer s) = flickerTimer s" "lastHandle (clear_timer s) = lastHandle s"
  "console (clear_timer s) = console s" "delivered (clear_timer s) = delivered s"
  by (simp_all add: clear_timer_def clearInterval_def)

lemma clear_flickerTimer_fields:
  "stage (clear_flickerTimer s) = stage s" "progress (clear_flickerTimer s) = progress s"
  "listeners (clear_flickerTimer s) = listeners s"
  "isFlickering (clear_flickerTimer s) = isFlickering s"
  "lastInteraction (clear_flickerTimer s) = lastInteraction s"
  "flickerStartTime (clear_flickerTimer s) = flickerStartTime s"
  "timer (clear_flickerTimer s) = timer s" "lastHandle (clear_flickerTimer s) = lastHandle s"
  "console (clear_flickerTimer s) = console s" "delivered (clear_flickerTimer s) = delivered s"
  by (simp_all add: clear_flickerTimer_def clearInterval_def)

lemma clear_timer_stops:
  assumes "timer s \<noteq> Some 0"
  shows "timer (clear_timer s) = None"
    and "intervals (clear_timer s) = filter (\<lambda>e. Some (fst e) \<noteq> timer s) (intervals s)"
  using assms by (cases "timer s"; simp add: clear_timer_def clearInterval_def)+

lemma clear_flickerTimer_stops:
  assumes "flickerTimer s \<noteq> Some 0"
  shows "flickerTimer (clear_flickerTimer s) = None"
    and "intervals (clear_flickerTimer s)
           = filter (\<lambda>e. Some (fst e) \<noteq> flickerTimer s) (intervals s)"
  using assms by (cases "flickerTimer s"; simp add: clear_flickerTimer_def clearInterval_def)+

lemma stop_both:
  assumes "timers_ok s"
  shows "timer (clear_flickerTimer (clear_timer s)) = None"
    and "flickerTimer (clear_flickerTimer (clear_timer s)) = None"
    and "intervals (clear_flickerTimer (clear_timer s))
           = filter (\<lambda>e. Some (fst e) \<noteq> timer s \<and> Some (fst e) \<noteq> flickerTimer s) (intervals s)"
proof -
  from assms have t: "timer s \<noteq> Some 0" and f: "flickerTimer (clear_timer s) \<noteq> Some 0"
    by (simp_all add: timers_ok_def clear_timer_fields)
  show "timer (clear_flickerTimer (clear_timer s)) = None"
    by (simp add: clear_flickerTimer_fields clear_timer_stops(1)[OF t])
  show "flickerTimer (clear_flickerTimer (clear_timer s)) = None"
    by (rule clear_flickerTimer_stops(1)[OF f])
  show "intervals (clear_flickerTimer (clear_timer s))
           = filter (\<lambda>e. Some (fst e) \<noteq> timer s \<and> Some (fst e) \<noteq> flickerTimer s) (intervals s)"
    by (simp add: clear_flickerTimer_stops(2)[OF f] clear_timer_stops(2)[OF t] clear_timer_fields
        conj_commute)
qed

lemma held_timers_filtered:
  assumes "holds_all_timers s"
  shows "filter (\<lambda>e. Some (fst e) \<noteq> timer s \<and> Some (fst e) \<noteq> flickerTimer s) (intervals s) = []"
  using assms by (auto simp: holds_all_timers_def list_all_iff filter_empty_conv)

lemma pause_effects:
  assumes "timers_ok s"
  shows "timer (pause s) = None \<and> flickerTimer (pause s) = None
       \<and> intervals (pause s)
           = filter (\<lambda>e. Some (fst e) \<noteq> timer s \<and> Some (fst e) \<noteq> flickerTimer s) (intervals s)
       \<and> lastHandle (pause s) = lastHandle s
       \<and> listeners (pause s) = listeners s \<and> stage (pause s) = stage s
       \<and> progress (pause s) = progress s \<and> isFlickering (pause s) = isFlickering s
       \<and> lastInteraction (pause s) = lastInteraction s
       \<and> flickerStartTime (pause s) = flickerStartTime s
       \<and> delivered (pause s) = delivered s"
proof -
  from assms have t: "timer (clear_timer s) = None"
    by (simp add: timers_ok_def clear_timer_stops(1))
  show ?thesis
    by (simp add: pause_def Let_def stop_both(2,3)[OF assms] t clear_timer_fields
        clear_flickerTimer_fields)
qed

lemma resume_stopped_effects:
  assumes "timer s = None" and "flickerTimer s = None"
  shows "timer (resume cfg s) = Some (lastHandle s + 1)
       \<and> flickerTimer (resume cfg s) = Some (lastHandle s + 2)
       \<and> intervals (resume cfg s)
           = intervals s @ [(lastHandle s + 1, UpdateTick, Num 100),
                            (lastHandle s + 2, FlickerTick, flicker cfg)]
       \<and> listeners (resume cfg s) = listeners s \<and> stage (resume cfg s) = stage s
       \<and> progress (resume cfg s) = progress s \<and> isFlickering (resume cfg s) = isFlickering s
       \<and> lastInteraction (resume cfg s) = lastInteraction s
       \<and> flickerStartTime (resume cfg s) = flickerStartTime s
       \<and> delivered (resume cfg s) = delivered s"
  using assms by (simp add: resume_def Let_def setInterval_def startFlickerCycle_def)

lemma destroy_effects:
  assumes "timers_ok s"
  shows "timer (destroy s) = None \<and> flickerTimer (destroy s) = None
       \<and> intervals (destroy s)
           = filter (\<lambda>e. Some (fst e) \<noteq> timer s \<and> Some (fst e) \<noteq> flickerTimer s) (intervals s)
       \<and> listeners (destroy s) = [] \<and> stage (destroy s) = ''preservation''
       \<and> \<not> isFlickering (destroy s)"
proof -
  from assms have t: "timer (clear_timer s) = None"
    by (simp add: timers_ok_def clear_timer_stops(1))
  show ?thesis
    by (simp add: destroy_def Let_def stop_both(2,3)[OF assms] t clear_timer_fields
        clear_flickerTimer_fields)
qed

lemma destroy_keeps:
  "progress (destroy s) = progress s" "lastInteraction (destroy s) = lastInteraction s"
  "flickerStartTime (destroy s) = flickerStartTime s" "delivered (destroy s) = delivered s"
  by (simp_all add: destroy_def Let_def clear_timer_fields clear_flickerTimer_fields)

subsection \<open>What every call preserves\<close>

lemma timers_ok_init: "timers_ok tankDecay_init"
  by (simp add: timers_ok_def tankDecay_init_def)

lemma timers_ok_step: "timers_ok s \<Longrightarrow> timers_ok (step cfg s a)"
proof (cases a)
  case (Start now)
  then show ?thesis
    by (simp add: timers_ok_def start_def Let_def setInterval_def startFlickerCycle_def notify_frame)
next
  case (Reset now)
  assume "timers_ok s"
  with Reset show ?thesis by (simp add: timers_ok_def reset_def Let_def notify_frame)
next
  case (Update n1 n2)
  assume "timers_ok s"
  with Update show ?thesis by (simp add: timers_ok_def update_def Let_def notify_frame)
next
  case (TriggerFlicker now)
  assume "timers_ok s"
  with TriggerFlicker show ?thesis by (simp add: timers_ok_def triggerFlicker_def Let_def notify_frame)
next
  case (Subscribe cb)
  assume "timers_ok s"
  with Subscribe show ?thesis by (simp add: timers_ok_def subscribe_def)
next
  case (SetStage st p)
  assume "timers_ok s"
  with SetStage show ?thesis by (simp add: timers_ok_def setStage_def notify_frame)
next
  case (ForceFlicker now)
  assume "timers_ok s"
  with ForceFlicker show ?thesis
    by (simp add: timers_ok_def forceFlicker_def triggerFlicker_def Let_def notify_frame)
next
  case Pause
  assume "timers_ok s"
  with Pause pause_effects[of s] show ?thesis by (simp add: timers_ok_def)
next
  case Resume
  assume "timers_ok s"
  with Resume show ?thesis
    by (cases "timer s"; cases "flickerTimer s";
        simp add: timers_ok_def resume_def Let_def setInterval_def startFlickerCycle_def)
next
  case Destroy
  assume "timers_ok s"
  with Destroy destroy_effects[of s] show ?thesis by (simp add: timers_ok_def)
qed

lemma timers_ok_run: "timers_ok s \<Longrightarrow> timers_ok (run cfg s acts)"
  unfolding run_def by (induction acts arbitrary: s) (simp_all add: timers_ok_step)

lemma step_listeners_delivered:
  "\<exists>ys. delivered (step cfg s a) = delivered s @ ys \<and> fst ` set ys \<subseteq> set (listeners s)"
proof -
  have c: "fst ` set (calls_of st p (listeners s)) \<subseteq> set (listeners s)" for st p
    by (auto simp: calls_of_def)
  show ?thesis
  proof (cases a)
    case (Start now)
    then show ?thesis using c
      by (simp add: start_def Let_def setInterval_def startFlickerCycle_def notify_frame
          notify_delivered)
  next
    case (Reset now)
    then show ?thesis using c by (simp add: reset_def Let_def notify_frame notify_delivered)
  next
    case (Update n1 n2)
    then show ?thesis using c by (simp add: update_def Let_def notify_frame notify_delivered)
  next
    case (TriggerFlicker now)
    then show ?thesis using c
      by (simp add: triggerFlicker_def Let_def notify_frame notify_delivered)
  next
    case (Subscribe cb)
    then show ?thesis by (simp add: subscribe_def)
  next
    case (SetStage st p)
    then show ?thesis using c by (simp add: setStage_def notify_frame notify_delivered)
  next
    case (ForceFlicker now)
    then show ?thesis using c
      by (simp add: forceFlicker_def triggerFlicker_def Let_def notify_frame notify_delivered)
  next
    case Pause
    then show ?thesis
      by (simp add: pause_def Let_def clear_timer_fields clear_flickerTimer_fields)
  next
    case Resume
    then show ?thesis
      by (simp add: resume_def Let_def setInterval_def startFlickerCycle_def split: prod.splits)
  next
    case Destroy
    then show ?thesis by (simp add: destroy_keeps)
  qed
qed

lemma functions_only_step: "functions_only s \<Longrightarrow> functions_only (step cfg s a)"
proof (cases a)
  case (Start now)
  assume "functions_only s"
  with Start show ?thesis
    by (simp add: functions_only_def start_def Let_def setInterval_def startFlickerCycle_def
        notify_frame)
next
  case (Reset now)
  assume "functions_only s"
  with Reset show ?thesis by (simp add: functions_only_def reset_def Let_def notify_frame)
next
  case (Update n1 n2)
  assume "functions_only s"
  with Update show ?thesis by (simp add: functions_only_def update_def Let_def notify_frame)
next
  case (TriggerFlicker now)
  assume "functions_only s"
  with TriggerFlicker show ?thesis
    by (simp add: functions_only_def triggerFlicker_def Let_def notify_frame)
next
  case (Subscribe cb)
  assume "functions_only s"
  with Subscribe show ?thesis by (simp add: functions_only_def subscribe_def)
next
  case (SetStage st p)
  assume "functions_only s"
  with SetStage show ?thesis by (simp add: functions_only_def setStage_def notify_frame)
next
  case (ForceFlicker now)
  assume "functions_only s"
  with ForceFlicker show ?thesis
    by (simp add: functions_only_def forceFlicker_def triggerFlicker_def Let_def notify_frame)
next
  case Pause
  assume "functions_only s"
  with Pause show ?thesis
    by (simp add: functions_only_def pause_def Let_def clear_timer_fields clear_flickerTimer_fields)
next
  case Resume
  assume "functions_only s"
  with Resume show ?thesis
    by (simp add: functions_only_def resume_def Let_def setInterval_def startFlickerCycle_def
        split: prod.splits)
next
  case Destroy
  then show ?thesis
    by (simp add: functions_only_def destroy_def Let_def)
qed

lemma run_calls_functions_only:
  "functions_only s \<Longrightarrow>
     \<exists>ys. delivered (run cfg s acts) = delivered s @ ys
        \<and> list_all (\<lambda>c. typeof (fst c) = ''function'') ys"
proof (induction acts arbitrary: s)
  case Nil
  then show ?case by (simp add: run_def)
next
  case (Cons a acts)
  obtain ys where ys: "delivered (step cfg s a) = delivered s @ ys"
      and sub: "fst ` set ys \<subseteq> set (listeners s)"
    using step_listeners_delivered by blast
  from Cons.prems sub have f: "list_all (\<lambda>c. typeof (fst c) = ''function'') ys"
    by (auto simp: functions_only_def list_all_iff)
  from Cons.IH[OF functions_only_step[OF Cons.prems, of cfg a]]
  obtain zs where zs: "delivered (run cfg (step cfg s a) acts) = delivered (step cfg s a) @ zs"
      and g: "list_all (\<lambda>c. typeof (fst c) = ''function'') zs"
    by blast
  have "delivered (run cfg s (a # acts)) = delivered s @ (ys @ zs)"
    using zs ys by (simp add: run_def)
  with f g show ?case by (metis list_all_append)
qed

subsection \<open>A flicker under the heartbeat\<close>

lemma updates_keep_flicker:
  assumes "isFlickering s" and "flickerStartTime s = Some t0"
      and "list_all (\<lambda>nn. snd nn - t0 < 1000) ticks"
  shows "isFlickering (updates cfg s ticks) \<and> flickerStartTime (updates cfg s ticks) = Some t0
       \<and> stage (updates cfg s ticks) = stage s
       \<and> listeners (updates cfg s ticks) = listeners s
       \<and> progress (updates cfg s ticks)
           = (if ticks = [] then progress s
              else Num (real_of_int (snd (last ticks) - t0) / 1000))"
  using assms
proof (induction ticks arbitrary: s)
  case Nil
  then show ?case by (simp add: updates_def)
next
  case (Cons nn ticks)
  from Cons.prems have lt: "real_of_int (snd nn - t0) < 1000" and
      rest: "list_all (\<lambda>nn. snd nn - t0 < 1000) ticks"
    by simp_all
  let ?s1 = "update cfg (fst nn) (snd nn) s"
  from update_flicker[OF Cons.prems(1,2), of "snd nn" cfg "fst nn"] lt
  have s1: "isFlickering ?s1" "flickerStartTime ?s1 = Some t0" "stage ?s1 = stage s"
      "listeners ?s1 = listeners s" "progress ?s1 = Num (real_of_int (snd nn - t0) / 1000)"
    by (simp_all add: Let_def)
  have u: "updates cfg s (nn # ticks) = updates cfg ?s1 ticks"
    by (simp add: updates_def)
  from Cons.IH[OF s1(1,2) rest] show ?case
    unfolding u by (simp add: s1)
qed

subsection \<open>Evaluating the example inputs\<close>

lemma started_eval:
  "started =
     \<lparr> stage = ''preservation'', progress = Num 0, lastInteraction = Some 0, timer = Some 1,
       listeners = [], flickerTimer = Some 2, isFlickering = False, flickerStartTime = None,
       intervals = [(1, UpdateTick, Num 100), (2, FlickerTick, Num 10000)], lastHandle = 2,
       console = [ConsoleLog ''Tank preservation system started''], delivered = [] \<rparr>"
  by (simp add: started_def start_def Let_def setInterval_def startFlickerCycle_def notify_def
      tankDecay_init_def TANK_CONFIG_timings_def)

lemma started_with_listeners_eval:
  "started_with_listeners =
     \<lparr> stage = ''preservation'', progress = Num 0, lastInteraction = Some 0, timer = Some 1,
       listeners = [listener_ok, listener_throwing, listener_ok], flickerTimer = Some 2,
       isFlickering = False, flickerStartTime = None,
       intervals = [(1, UpdateTick, Num 100), (2, FlickerTick, Num 10000)], lastHandle = 2,
       console = [ConsoleError ''Listener error:'' (Some ''boom''),
                  ConsoleLog ''Tank preservation system started''],
       delivered = [(listener_ok, ''preservation'', Num 0, Returned),
                    (listener_throwing, ''preservation'', Num 0, Threw ''boom''),
                    (listener_ok, ''preservation'', Num 0, Returned)] \<rparr>"
  by (simp add: started_with_listeners_def start_def Let_def setInterval_def startFlickerCycle_def
      notify_def notify_one_def subscribe_def tankDecay_init_def TANK_CONFIG_timings_def
      listener_ok_def listener_throwing_def)

subsection \<open>The claims about the broadcaster\<close>

text \<open>
  C3, as the code has it. In the steady state (the flicker flag is off), with a cycle length
  \<open>C > 0\<close> and \<open>t\<close> the time since the baseline \<^verbatim>\<open>lastInteraction\<close> (\<^verbatim>\<open>null\<close> counts as 0):
  while \<open>t < C\<close> the heartbeat stores and broadcasts the progress \<open>t / C\<close> and keeps the
  baseline; as soon as \<open>t \<ge> C\<close>, that is as soon as the progress reaches 1.0, it stores and
  broadcasts 0 and moves the baseline to the current time. The value 1.0 itself is never
  stored after a heartbeat nor broadcast. The stage is steady after the heartbeat in both
  cases, so the cycle starts again and never halts.
\<close>

theorem update_steady_progress:
  assumes "\<not> isFlickering s" and "preservation cfg = Num C" and "0 < C"
  shows "let t = real_of_int (now1 - (case lastInteraction s of None \<Rightarrow> 0 | Some b \<Rightarrow> b));
             s' = update cfg now1 now2 s
         in progress s' = (if t < C then Num (t / C) else Num 0)
          \<and> progress s' \<noteq> Num 1
          \<and> lastInteraction s' = (if t < C then lastInteraction s else Some now2)
          \<and> stage s' = ''preservation'' \<and> \<not> isFlickering s'
          \<and> listeners s' = listeners s
          \<and> delivered s' = delivered s @ calls_of ''preservation'' (progress s') (listeners s)"
proof -
  define t where "t = real_of_int (now1 - (case lastInteraction s of None \<Rightarrow> 0 | Some b \<Rightarrow> b))"
  define s' where "s' = update cfg now1 now2 s"
  from update_preservation[OF assms, of now1 now2]
  have p: "progress s' = (if t < C then Num (t / C) else Num 0)"
    and rest: "lastInteraction s' = (if t < C then lastInteraction s else Some now2)"
      "stage s' = ''preservation''" "\<not> isFlickering s'" "listeners s' = listeners s"
      "delivered s' = delivered s @ calls_of ''preservation'' (progress s') (listeners s)"
    by (simp_all add: Let_def t_def s'_def)
  have "progress s' \<noteq> Num 1"
  proof (cases "t < C")
    case True
    with assms(3) have "t / C < 1" by simp
    with True p show ?thesis by simp
  next
    case False
    with p show ?thesis by simp
  qed
  with p rest show ?thesis
    unfolding Let_def t_def[symmetric] s'_def[symmetric] by simp
qed

theorem update_steady_progress_witness:
  "\<not> isFlickering started \<and> preservation TANK_CONFIG_timings = Num 300000 \<and> (0::real) < 300000
   \<and> progress (update TANK_CONFIG_timings 150000 150000 started) = Num (1 / 2)
   \<and> lastInteraction (update TANK_CONFIG_timings 150000 150000 started) = Some 0
   \<and> progress (update TANK_CONFIG_timings 300100 300101 started) = Num 0
   \<and> lastInteraction (update TANK_CONFIG_timings 300100 300101 started) = Some 300101"
proof -
  have h1: "\<not> isFlickering started" by (simp add: started_eval)
  have h2: "preservation TANK_CONFIG_timings = Num 300000" by (simp add: TANK_CONFIG_timings_def)
  have h3: "(0::real) < 300000" by simp
  have b: "lastInteraction started = Some 0" by (simp add: started_eval)
  from update_steady_progress[OF h1 h2 h3, of 150000 150000]
       update_steady_progress[OF h1 h2 h3, of 300100 300101]
  show ?thesis using h1 h2 by (simp add: Let_def b)
qed

text \<open>
  The claim C3 as the specification states it, progress = min(t / C, 1.0), fails when the
  elapsed time is exactly the cycle length: min(t / C, 1.0) is 1, and the heartbeat stores
  (and would broadcast) 0.
\<close>

theorem update_steady_progress_counterexample:
  "progress (update TANK_CONFIG_timings 300000 300000 started) = Num 0
   \<and> lastInteraction started = Some 0
   \<and> Num (min (real_of_int (300000 - 0) / 300000) 1) = Num 1
   \<and> progress (update TANK_CONFIG_timings 300000 300000 started)
       \<noteq> Num (min (real_of_int (300000 - 0) / 300000) 1)"
  by (simp add: started_eval update_def Let_def minus_nullable_def TANK_CONFIG_timings_def
      Math_min_def js_ge_def notify_def)

text \<open>
  C4, as the code has it. A flicker entered at time \<open>t0\<close> (stage flicker, progress 0) stays
  through every heartbeat that reads a time less than 1000 ms after \<open>t0\<close>, with progress
  (time - \<open>t0\<close>) / 1000, and the first heartbeat that reads a time 1000 ms or more after
  \<open>t0\<close> puts the stage back to steady with progress 0 and broadcasts that pair. The flicker
  therefore lasts at least 1000 ms and ends at a heartbeat, not at \<open>t0 + 1000\<close> itself;
  the 1000 is a literal of \<^verbatim>\<open>update\<close>, not a value of the configuration.
\<close>

theorem flicker_ends_at_first_heartbeat_from_1000ms:
  assumes "\<not> isFlickering s"
      and "list_all (\<lambda>nn. snd nn - t0 < 1000) ticks"
      and "1000 \<le> n2 - t0"
  shows "let s1 = triggerFlicker t0 s; s2 = updates cfg s1 ticks; s3 = update cfg n1 n2 s2
         in isFlickering s1 \<and> stage s1 = ''flicker'' \<and> progress s1 = Num 0
          \<and> isFlickering s2 \<and> stage s2 = ''flicker''
          \<and> progress s2 = (if ticks = [] then Num 0
                            else Num (real_of_int (snd (last ticks) - t0) / 1000))
          \<and> \<not> isFlickering s3 \<and> stage s3 = ''preservation'' \<and> progress s3 = Num 0
          \<and> delivered s3 = delivered s2 @ calls_of ''preservation'' (Num 0) (listeners s)"
proof -
  let ?s1 = "triggerFlicker t0 s"
  let ?s2 = "updates cfg ?s1 ticks"
  from triggerFlicker_enter[OF assms(1), of t0]
  have s1: "isFlickering ?s1" "flickerStartTime ?s1 = Some t0" "stage ?s1 = ''flicker''"
      "progress ?s1 = Num 0" "listeners ?s1 = listeners s"
    by simp_all
  from updates_keep_flicker[OF s1(1,2) assms(2), of cfg]
  have s2: "isFlickering ?s2" "flickerStartTime ?s2 = Some t0" "stage ?s2 = ''flicker''"
      "listeners ?s2 = listeners s"
      "progress ?s2 = (if ticks = [] then Num 0
                       else Num (real_of_int (snd (last ticks) - t0) / 1000))"
    by (simp_all add: s1)
  from assms(3) have ge: "\<not> real_of_int (n2 - t0) < 1000" by simp
  from update_flicker[OF s2(1,2), of n2 cfg n1] ge
  have s3: "\<not> isFlickering (update cfg n1 n2 ?s2)" "stage (update cfg n1 n2 ?s2) = ''preservation''"
      "progress (update cfg n1 n2 ?s2) = Num 0"
      "delivered (update cfg n1 n2 ?s2) = delivered ?s2 @ calls_of ''preservation'' (Num 0) (listeners s)"
    by (simp_all add: Let_def s2)
  show ?thesis
    unfolding Let_def using s1(1,3,4) s2(1,3,5) s3 by simp
qed

theorem flicker_ends_at_first_heartbeat_from_1000ms_witness:
  "\<not> isFlickering started
   \<and> list_all (\<lambda>nn. snd nn - 50 < 1000) [(900, 900), (1000, 1000 :: int)]
   \<and> (1000 :: int) \<le> 1100 - 50
   \<and> isFlickering (updates TANK_CONFIG_timings (triggerFlicker 50 started) [(900, 900), (1000, 1000)])
   \<and> progress (updates TANK_CONFIG_timings (triggerFlicker 50 started) [(900, 900), (1000, 1000)])
       = Num (950 / 1000)
   \<and> \<not> isFlickering (update TANK_CONFIG_timings 1100 1100
         (updates TANK_CONFIG_timings (triggerFlicker 50 started) [(900, 900), (1000, 1000)]))
   \<and> progress (update TANK_CONFIG_timings 1100 1100
         (updates TANK_CONFIG_timings (triggerFlicker 50 started) [(900, 900), (1000, 1000)]))
       = Num 0"
proof -
  have h1: "\<not> isFlickering started" by (simp add: started_eval)
  have h2: "list_all (\<lambda>nn. snd nn - 50 < 1000) [(900, 900), (1000, 1000 :: int)]" by simp
  have h3: "(1000 :: int) \<le> 1100 - 50" by simp
  from flicker_ends_at_first_heartbeat_from_1000ms[OF h1 h2 h3, of TANK_CONFIG_timings 1100]
  show ?thesis using h1 by (simp add: Let_def)
qed

text \<open>
  The claim C4 as the specification states it, a flicker that lasts exactly 1000 ms, fails
  under the 100 ms heartbeat of \<^verbatim>\<open>start\<close>: a flicker forced at time 50 is still on at
  time 1099, more than 1000 ms after its entry, and is ended by the heartbeat at 1100.
\<close>

theorem flicker_exactly_1000ms_counterexample:
  "flickerStartTime
     (stateAt TANK_CONFIG_timings started ((50, ForceFlicker 50) # heartbeat 0 11) 1099) = Some 50
   \<and> isFlickering
     (stateAt TANK_CONFIG_timings started ((50, ForceFlicker 50) # heartbeat 0 11) 1099)
   \<and> (50 :: int) + 1000 < 1099
   \<and> \<not> isFlickering
     (stateAt TANK_CONFIG_timings started ((50, ForceFlicker 50) # heartbeat 0 11) 1100)"
  by code_simp

text \<open>
  C5. When the interaction signal \<^verbatim>\<open>reset\<close> arrives while the flicker flag is on, the
  controller returns to the steady stage with progress 0, moves the baseline to the current
  time, and the notification pass it runs at once calls every listener with the pair
  (preservation, 0).
\<close>

theorem reset_during_flicker_broadcasts_steady_zero:
  assumes "isFlickering s"
  shows "let s' = reset now s
         in stage s' = ''preservation'' \<and> progress s' = Num 0 \<and> \<not> isFlickering s'
          \<and> lastInteraction s' = Some now \<and> listeners s' = listeners s
          \<and> delivered s' = delivered s @ calls_of ''preservation'' (Num 0) (listeners s)"
proof -
  from assms have "reset now s
      = notify (s\<lparr> lastInteraction := Some now, isFlickering := False,
                   stage := ''preservation'', progress := Num 0 \<rparr>)"
    by (simp add: reset_def Let_def)
  then show ?thesis
    by (simp add: Let_def notify_frame notify_delivered)
qed

theorem reset_during_flicker_broadcasts_steady_zero_witness:
  "isFlickering (triggerFlicker 50 started_with_listeners)
   \<and> stage (triggerFlicker 50 started_with_listeners) = ''flicker''
   \<and> stage (reset 400 (triggerFlicker 50 started_with_listeners)) = ''preservation''
   \<and> progress (reset 400 (triggerFlicker 50 started_with_listeners)) = Num 0
   \<and> delivered (reset 400 (triggerFlicker 50 started_with_listeners))
       = delivered (triggerFlicker 50 started_with_listeners)
         @ [(listener_ok, ''preservation'', Num 0, Returned),
            (listener_throwing, ''preservation'', Num 0, Threw ''boom''),
            (listener_ok, ''preservation'', Num 0, Returned)]"
proof -
  have nf: "\<not> isFlickering started_with_listeners" by (simp add: started_with_listeners_eval)
  from triggerFlicker_enter[OF nf, of 50]
  have f: "isFlickering (triggerFlicker 50 started_with_listeners)"
    and st: "stage (triggerFlicker 50 started_with_listeners) = ''flicker''"
    and l: "listeners (triggerFlicker 50 started_with_listeners)
              = [listener_ok, listener_throwing, listener_ok]"
    by (simp_all add: started_with_listeners_eval)
  from reset_during_flicker_broadcasts_steady_zero[OF f, of 400]
  show ?thesis using f st
    by (simp add: Let_def l calls_of_def listener_ok_def listener_throwing_def)
qed

text \<open>
  C6. A notification pass calls every registered listener, in the order of the list, with the
  current stage and progress; a listener that throws leaves one error line on the console and
  does not stop the pass; the list of listeners is the same after the pass; and
  \<^verbatim>\<open>subscribe\<close> appends a function at the end of the list, so the order of the list is the
  order of registration.
\<close>

theorem notify_calls_every_listener_in_order:
  "delivered (notify s)
     = delivered s @ map (\<lambda>cb. (cb, stage s, progress s, invoke cb (stage s) (progress s))) (listeners s)
   \<and> console (notify s)
     = console s @ List.map_filter error_of (calls_of (stage s) (progress s) (listeners s))
   \<and> listeners (notify s) = listeners s
   \<and> stage (notify s) = stage s \<and> progress (notify s) = progress s
   \<and> listeners (subscribe (JFunction f) s) = listeners s @ [JFunction f]"
  by (simp add: notify_delivered[unfolded calls_of_def] notify_console notify_frame subscribe_def)

theorem notify_calls_every_listener_in_order_witness:
  "delivered (notify started_with_listeners)
     = delivered started_with_listeners
       @ [(listener_ok, ''preservation'', Num 0, Returned),
          (listener_throwing, ''preservation'', Num 0, Threw ''boom''),
          (listener_ok, ''preservation'', Num 0, Returned)]
   \<and> console (notify started_with_listeners)
     = console started_with_listeners @ [ConsoleError ''Listener error:'' (Some ''boom'')]
   \<and> listeners (notify started_with_listeners) = [listener_ok, listener_throwing, listener_ok]"
  using notify_calls_every_listener_in_order[of started_with_listeners]
  by (simp add: started_with_listeners_eval calls_of_def List.map_filter_def
      listener_ok_def listener_throwing_def)

text \<open>
  C7, as the code has it. Teardown stops the two timers whose handles the object holds and
  forgets the handles, so that no timer is left when the object held the handles of all of
  them; it empties the list of listeners, puts the stage back to steady and switches the
  flicker flag off.
\<close>

theorem destroy_stops_timers_clears_listeners_resets_stage:
  assumes "timers_ok s"
  shows "timer (destroy s) = None \<and> flickerTimer (destroy s) = None
       \<and> intervals (destroy s)
           = filter (\<lambda>e. Some (fst e) \<noteq> timer s \<and> Some (fst e) \<noteq> flickerTimer s) (intervals s)
       \<and> (holds_all_timers s \<longrightarrow> intervals (destroy s) = [])
       \<and> listeners (destroy s) = [] \<and> stage (destroy s) = ''preservation''
       \<and> \<not> isFlickering (destroy s)"
  using destroy_effects[OF assms] held_timers_filtered[of s] by simp

theorem destroy_stops_timers_clears_listeners_resets_stage_witness:
  "timers_ok (triggerFlicker 50 started_with_listeners)
   \<and> holds_all_timers (triggerFlicker 50 started_with_listeners)
   \<and> intervals (triggerFlicker 50 started_with_listeners)
       = [(1, UpdateTick, Num 100), (2, FlickerTick, Num 10000)]
   \<and> stage (triggerFlicker 50 started_with_listeners) = ''flicker''
   \<and> timer (destroy (triggerFlicker 50 started_with_listeners)) = None
   \<and> flickerTimer (destroy (triggerFlicker 50 started_with_listeners)) = None
   \<and> intervals (destroy (triggerFlicker 50 started_with_listeners)) = []
   \<and> listeners (destroy (triggerFlicker 50 started_with_listeners)) = []
   \<and> stage (destroy (triggerFlicker 50 started_with_listeners)) = ''preservation''
   \<and> \<not> isFlickering (destroy (triggerFlicker 50 started_with_listeners))"
proof -
  have e: "timer (triggerFlicker 50 started_with_listeners) = Some 1"
      "flickerTimer (triggerFlicker 50 started_with_listeners) = Some 2"
      "intervals (triggerFlicker 50 started_with_listeners)
         = [(1, UpdateTick, Num 100), (2, FlickerTick, Num 10000)]"
      "stage (triggerFlicker 50 started_with_listeners) = ''flicker''"
    by (simp_all add: triggerFlicker_def Let_def notify_frame started_with_listeners_eval)
  have ok: "timers_ok (triggerFlicker 50 started_with_listeners)"
    by (simp add: timers_ok_def e)
  have all: "holds_all_timers (triggerFlicker 50 started_with_listeners)"
    by (simp add: holds_all_timers_def e)
  from destroy_stops_timers_clears_listeners_resets_stage[OF ok]
  show ?thesis using ok all by (simp add: e)
qed

text \<open>
  The claim C7 as the specification states it, a teardown that puts the state back to steady
  with progress 0 and stops all timers, fails: \<^verbatim>\<open>destroy\<close> does not assign
  \<^verbatim>\<open>progress\<close>. After half a cycle the progress is 1/2, and it is still 1/2 after the
  teardown. And when \<^verbatim>\<open>start\<close> was called a second time, the two timers of the first
  call, whose handles the object no longer holds, are still active after the teardown.
\<close>

theorem destroy_resets_progress_counterexample:
  "progress (update TANK_CONFIG_timings 150000 150000 started) = Num (1 / 2)
   \<and> stage (destroy (update TANK_CONFIG_timings 150000 150000 started)) = ''preservation''
   \<and> progress (destroy (update TANK_CONFIG_timings 150000 150000 started)) = Num (1 / 2)
   \<and> progress (destroy (update TANK_CONFIG_timings 150000 150000 started))
       \<noteq> progress tankDecay_init
   \<and> intervals (destroy (start TANK_CONFIG_timings 5 started))
       = [(1, UpdateTick, Num 100), (2, FlickerTick, Num 10000)]"
  by (simp add: destroy_keeps destroy_def clear_timer_def clear_flickerTimer_def clearInterval_def
      started_eval start_def startFlickerCycle_def setInterval_def
      update_def Let_def minus_nullable_def TANK_CONFIG_timings_def
      Math_min_def js_ge_def notify_def tankDecay_init_def)

text \<open>
  C8. Pausing stops the two timers whose handles the object holds (no timer is left when
  the object held the handles of all of them) and changes neither the listeners nor the
  stage, the progress, the flicker flag or the two time stamps, and notifies nobody.
  Resuming after the pause starts two new timers (the heartbeat every 100 ms, the
  flicker timer with its configured period) and again changes none of those fields and
  notifies nobody: no transition is triggered.
\<close>

theorem pause_then_resume_keeps_state:
  assumes "timers_ok s"
  shows "let p = pause s; r = resume cfg p
         in timer p = None \<and> flickerTimer p = None
          \<and> intervals p
              = filter (\<lambda>e. Some (fst e) \<noteq> timer s \<and> Some (fst e) \<noteq> flickerTimer s) (intervals s)
          \<and> (holds_all_timers s \<longrightarrow> intervals p = [])
          \<and> listeners p = listeners s \<and> stage p = stage s \<and> progress p = progress s
          \<and> isFlickering p = isFlickering s \<and> lastInteraction p = lastInteraction s
          \<and> flickerStartTime p = flickerStartTime s \<and> delivered p = delivered s
          \<and> timer r = Some (lastHandle s + 1) \<and> flickerTimer r = Some (lastHandle s + 2)
          \<and> intervals r
              = intervals p @ [(lastHandle s + 1, UpdateTick, Num 100),
                               (lastHandle s + 2, FlickerTick, flicker cfg)]
          \<and> listeners r = listeners s \<and> stage r = stage s \<and> progress r = progress s
          \<and> isFlickering r = isFlickering s \<and> lastInteraction r = lastInteraction s
          \<and> flickerStartTime r = flickerStartTime s \<and> delivered r = delivered s"
proof -
  note p = pause_effects[OF assms]
  from p have "timer (pause s) = None" and "flickerTimer (pause s) = None" by simp_all
  note r = resume_stopped_effects[OF this, of cfg]
  show ?thesis unfolding Let_def using p r held_timers_filtered[of s] by simp
qed

theorem pause_then_resume_keeps_state_witness:
  "timers_ok (update TANK_CONFIG_timings 150000 150000 started_with_listeners)
   \<and> holds_all_timers (update TANK_CONFIG_timings 150000 150000 started_with_listeners)
   \<and> intervals (pause (update TANK_CONFIG_timings 150000 150000 started_with_listeners)) = []
   \<and> progress (pause (update TANK_CONFIG_timings 150000 150000 started_with_listeners)) = Num (1 / 2)
   \<and> intervals (resume TANK_CONFIG_timings
        (pause (update TANK_CONFIG_timings 150000 150000 started_with_listeners)))
       = [(3, UpdateTick, Num 100), (4, FlickerTick, Num 10000)]
   \<and> stage (resume TANK_CONFIG_timings
        (pause (update TANK_CONFIG_timings 150000 150000 started_with_listeners))) = ''preservation''
   \<and> progress (resume TANK_CONFIG_timings
        (pause (update TANK_CONFIG_timings 150000 150000 started_with_listeners))) = Num (1 / 2)
   \<and> listeners (resume TANK_CONFIG_timings
        (pause (update TANK_CONFIG_timings 150000 150000 started_with_listeners)))
       = [listener_ok, listener_throwing, listener_ok]"
proof -
  let ?s = "update TANK_CONFIG_timings 150000 150000 started_with_listeners"
  have nf: "\<not> isFlickering started_with_listeners"
    and c: "preservation TANK_CONFIG_timings = Num 300000"
    by (simp_all add: started_with_listeners_eval TANK_CONFIG_timings_def)
  from update_preservation[OF nf c, of 150000 150000]
  have u: "progress ?s = Num (1 / 2)" "stage ?s = ''preservation''"
      "listeners ?s = [listener_ok, listener_throwing, listener_ok]"
    by (simp_all add: Let_def started_with_listeners_eval)
  have t: "timer ?s = Some 1" "flickerTimer ?s = Some 2" "lastHandle ?s = 2"
      "intervals ?s = [(1, UpdateTick, Num 100), (2, FlickerTick, Num 10000)]"
    by (simp_all add: update_def Let_def notify_frame started_with_listeners_eval)
  have ok: "timers_ok ?s" by (simp add: timers_ok_def t)
  have all: "holds_all_timers ?s" by (simp add: holds_all_timers_def t)
  have fl: "flicker TANK_CONFIG_timings = Num 10000" by (simp add: TANK_CONFIG_timings_def)
  from pause_then_resume_keeps_state[OF ok, of TANK_CONFIG_timings]
  show ?thesis using ok all by (simp add: Let_def u t fl)
qed

text \<open>
  C9. Handing \<^verbatim>\<open>subscribe\<close> a value that is not a function changes nothing but the console,
  which gets one error line: the list of listeners is the same. From a state whose listeners
  are all functions (every state \<^verbatim>\<open>subscribe\<close> can build), no later call of any method of
  the object calls the rejected value.
\<close>

theorem subscribe_rejects_non_function:
  assumes "typeof callback \<noteq> ''function''"
  shows "subscribe callback s
           = s\<lparr> console := console s @ [ConsoleError ''Subscribe requires a function callback'' None] \<rparr>
       \<and> listeners (subscribe callback s) = listeners s
       \<and> (functions_only s \<longrightarrow>
            callback \<notin> fst ` set (drop (length (delivered s))
                                  (delivered (run cfg (subscribe callback s) acts))))"
proof -
  have eq: "subscribe callback s
           = s\<lparr> console := console s @ [ConsoleError ''Subscribe requires a function callback'' None] \<rparr>"
    using assms by (simp add: subscribe_def)
  have "callback \<notin> fst ` set (drop (length (delivered s))
                                  (delivered (run cfg (subscribe callback s) acts)))"
    if f: "functions_only s"
  proof -
    from f have f': "functions_only (subscribe callback s)"
      by (simp add: eq functions_only_def)
    from run_calls_functions_only[OF f', of cfg acts]
    obtain ys where ys: "delivered (run cfg (subscribe callback s) acts) = delivered s @ ys"
        and fn: "list_all (\<lambda>c. typeof (fst c) = ''function'') ys"
      by (auto simp: eq)
    from fn assms have "callback \<notin> fst ` set ys"
      by (auto simp: list_all_iff)
    then show ?thesis by (simp add: ys)
  qed
  then show ?thesis using eq by simp
qed

theorem subscribe_rejects_non_function_witness:
  "typeof (JString ''not a function'') \<noteq> ''function''
   \<and> functions_only started_with_listeners
   \<and> listeners (subscribe (JString ''not a function'') started_with_listeners)
       = [listener_ok, listener_throwing, listener_ok]
   \<and> console (subscribe (JString ''not a function'') started_with_listeners)
       = console started_with_listeners
         @ [ConsoleError ''Subscribe requires a function callback'' None]
   \<and> JString ''not a function''
       \<notin> fst ` set (drop (length (delivered started_with_listeners))
            (delivered (run TANK_CONFIG_timings
               (subscribe (JString ''not a function'') started_with_listeners)
               [Update 100 100, TriggerFlicker 150, Update 200 200])))"
proof -
  have h: "typeof (JString ''not a function'') \<noteq> ''function''" by simp
  have f: "functions_only started_with_listeners"
    by (simp add: functions_only_def started_with_listeners_eval listener_ok_def
        listener_throwing_def)
  have l: "listeners started_with_listeners = [listener_ok, listener_throwing, listener_ok]"
    by (simp add: started_with_listeners_eval)
  note w = subscribe_rejects_non_function[OF h, of started_with_listeners TANK_CONFIG_timings
      "[Update 100 100, TriggerFlicker 150, Update 200 200]"]
  from w have a: "console (subscribe (JString ''not a function'') started_with_listeners)
       = console started_with_listeners
         @ [ConsoleError ''Subscribe requires a function callback'' None]"
    by simp
  from w have b: "listeners (subscribe (JString ''not a function'') started_with_listeners)
       = listeners started_with_listeners"
    by blast
  from w f have c: "JString ''not a function''
       \<notin> fst ` set (drop (length (delivered started_with_listeners))
            (delivered (run TANK_CONFIG_timings
               (subscribe (JString ''not a function'') started_with_listeners)
               [Update 100 100, TriggerFlicker 150, Update 200 200])))"
    by blast
  show ?thesis using h f a b c l by simp
qed

section \<open>Properties of the collision detection\<close>

lemma classList_add_mem: "c \<in> set (classList_add d cs) \<longleftrightarrow> c = d \<or> c \<in> set cs"
  by (auto simp: classList_add_def)

lemma classList_remove_mem: "c \<in> set (classList_remove d cs) \<longleftrightarrow> c \<noteq> d \<and> c \<in> set cs"
  by (auto simp: classList_remove_def)

text \<open>What one target looks like after its round does not depend on the accumulator.\<close>

lemma checkTarget_target_independent:
  "snd (checkTarget y vt vb sc acc tg) = snd (checkTarget y vt vb sc acc' tg)"
  by (simp add: checkTarget_def Let_def)

lemma checkTargets_length:
  "length (snd (checkTargets y vt vb sc acc tgs)) = length tgs"
proof (induction tgs arbitrary: acc)
  case Nil
  then show ?case by simp
next
  case (Cons tg tgs)
  obtain acc1 tg' where c: "checkTarget y vt vb sc acc tg = (acc1, tg')"
    by (cases "checkTarget y vt vb sc acc tg")
  obtain acc2 tgs' where d: "checkTargets y vt vb sc acc1 tgs = (acc2, tgs')"
    by (cases "checkTargets y vt vb sc acc1 tgs")
  from Cons.IH[of acc1] d have "length tgs' = length tgs" by simp
  then show ?case by (simp add: c d)
qed

lemma checkTargets_nth:
  "i < length tgs \<Longrightarrow>
     snd (checkTargets y vt vb sc acc tgs) ! i = snd (checkTarget y vt vb sc acc' (tgs ! i))"
proof (induction tgs arbitrary: acc i)
  case Nil
  then show ?case by simp
next
  case (Cons tg tgs)
  show ?case
  proof (cases i)
    case 0
    obtain acc1 tg' where c: "checkTarget y vt vb sc acc tg = (acc1, tg')"
      by (cases "checkTarget y vt vb sc acc tg")
    obtain acc2 tgs' where d: "checkTargets y vt vb sc acc1 tgs = (acc2, tgs')"
      by (cases "checkTargets y vt vb sc acc1 tgs")
    from checkTarget_target_independent[of y vt vb sc acc tg acc'] c
    have "tg' = snd (checkTarget y vt vb sc acc' tg)" by simp
    then show ?thesis using 0 by (simp add: c d)
  next
    case (Suc j)
    with Cons.prems have j: "j < length tgs" by simp
    obtain acc1 tg' where c: "checkTarget y vt vb sc acc tg = (acc1, tg')"
      by (cases "checkTarget y vt vb sc acc tg")
    obtain acc2 tgs' where d: "checkTargets y vt vb sc acc1 tgs = (acc2, tgs')"
      by (cases "checkTargets y vt vb sc acc1 tgs")
    from Cons.IH[OF j, of acc1] d
    have "tgs' ! j = snd (checkTarget y vt vb sc acc' (tgs ! j))" by simp
    then show ?thesis using Suc by (simp add: c d)
  qed
qed

text \<open>The contact test of one round, for a target that is not pruned.\<close>

lemma checkTarget_contact:
  assumes "\<not> (rect_top (rect tg) + sc < vt \<or> rect_top (rect tg) + sc > vb)"
  shows "in_contact (snd (checkTarget y vt vb sc acc tg)) \<longleftrightarrow>
           (y \<ge> rect_top (rect tg) - (max (rect_height (rect tg)) 40 - rect_height (rect tg)) / 2
            \<and> y \<le> rect_bottom (rect tg) + (max (rect_height (rect tg)) 40 - rect_height (rect tg)) / 2)
           \<and> \<bar>y - (rect_top (rect tg) + rect_height (rect tg) / 2)\<bar> < 60
           \<and> \<bar>y - (rect_top (rect tg) + rect_height (rect tg) / 2)\<bar>
               < max 20 (rect_height (rect tg) / 2)"
  using assms
  by (auto simp: checkTarget_def Let_def in_contact_def classList_add_mem classList_remove_mem)

text \<open>For a well-formed rectangle the padded bounds hold whenever the distance test does.\<close>

lemma in_bounds_of_distance:
  assumes "rect_ok r"
      and "\<bar>y - (rect_top r + rect_height r / 2)\<bar> < max 20 (rect_height r / 2)"
  shows "y \<ge> rect_top r - (max (rect_height r) 40 - rect_height r) / 2
       \<and> y \<le> rect_bottom r + (max (rect_height r) 40 - rect_height r) / 2"
proof -
  from assms(1) have h: "0 \<le> rect_height r" and b: "rect_bottom r = rect_top r + rect_height r"
    by (simp_all add: rect_ok_def)
  show ?thesis
  proof (cases "40 \<le> rect_height r")
    case True
    with assms(2) h show ?thesis unfolding b by (simp add: max_def abs_if split: if_splits)
  next
    case False
    with assms(2) h have "\<bar>y - (rect_top r + rect_height r / 2)\<bar> < 20"
      by (simp add: max_def)
    then have "rect_top r + rect_height r / 2 - 20 < y" "y < rect_top r + rect_height r / 2 + 20"
      by linarith+
    moreover from False have "max (rect_height r) 40 = 40" by simp
    ultimately show ?thesis unfolding b by (simp add: field_simps)
  qed
qed

lemma collisionTick_targets:
  assumes "\<not> isPaused b" and "body b = Some beamRect"
  shows "snd (collisionTick mobile w b targets)
           = snd (checkTargets (scanY beamRect) (scrollY w - (if mobile then 100 else 200))
                   (scrollY w + innerHeight w + (if mobile then 100 else 200)) (scrollY w)
                   (b, False) targets)"
  using assms by (simp add: collisionTick_def Let_def scanY_def split: prod.splits)

text \<open>
  C1, as the code has it. In a tick that runs (the module is not paused and has a beam body),
  a target that the viewport test skips keeps the classes it had, and a target that the test
  does not skip leaves the tick with the class \<^verbatim>\<open>beam-contact\<close> exactly when its distance
  to the scan coordinate is less than max(20, half its height) and also less than 60, the
  bound of the approach test the contact test is nested in. Both comparisons are strict: a
  distance equal to the threshold is not a contact.
\<close>

theorem contact_iff_within_threshold_and_approach_bound:
  assumes "\<not> isPaused b" and "body b = Some beamRect"
      and "i < length targets"
      and "rect_ok (rect (targets ! i))"
  shows "let r = rect (targets ! i);
             distance = \<bar>scanY beamRect - (rect_top r + (rect_bottom r - rect_top r) / 2)\<bar>
         in if pruned mobile w (targets ! i)
            then snd (collisionTick mobile w b targets) ! i = targets ! i
            else in_contact (snd (collisionTick mobile w b targets) ! i)
                   \<longleftrightarrow> distance < max 20 ((rect_bottom r - rect_top r) / 2) \<and> distance < 60"
proof -
  let ?r = "rect (targets ! i)"
  let ?y = "scanY beamRect"
  let ?vt = "scrollY w - (if mobile then 100 else 200)"
  let ?vb = "scrollY w + innerHeight w + (if mobile then 100 else 200)"
  from assms(4) have hb: "rect_bottom ?r - rect_top ?r = rect_height ?r"
    by (simp add: rect_ok_def)
  have tick: "snd (collisionTick mobile w b targets) ! i
          = snd (checkTarget ?y ?vt ?vb (scrollY w) (b, False) (targets ! i))"
    by (simp only: collisionTick_targets[OF assms(1,2)] checkTargets_nth[OF assms(3)])
  show ?thesis
  proof (cases "pruned mobile w (targets ! i)")
    case True
    then have "snd (checkTarget ?y ?vt ?vb (scrollY w) (b, False) (targets ! i)) = targets ! i"
      by (simp add: checkTarget_def pruned_def Let_def)
    with True tick show ?thesis by (simp add: Let_def)
  next
    case False
    then have np: "\<not> (rect_top ?r + scrollY w < ?vt \<or> rect_top ?r + scrollY w > ?vb)"
      by (simp add: pruned_def)
    from tick have "in_contact (snd (collisionTick mobile w b targets) ! i) \<longleftrightarrow>
           (?y \<ge> rect_top ?r - (max (rect_height ?r) 40 - rect_height ?r) / 2
            \<and> ?y \<le> rect_bottom ?r + (max (rect_height ?r) 40 - rect_height ?r) / 2)
           \<and> \<bar>?y - (rect_top ?r + rect_height ?r / 2)\<bar> < 60
           \<and> \<bar>?y - (rect_top ?r + rect_height ?r / 2)\<bar> < max 20 (rect_height ?r / 2)"
      using checkTarget_contact[OF np, of ?y "(b, False)"] by simp
    also have "\<dots> \<longleftrightarrow> \<bar>?y - (rect_top ?r + rect_height ?r / 2)\<bar> < max 20 (rect_height ?r / 2)
                     \<and> \<bar>?y - (rect_top ?r + rect_height ?r / 2)\<bar> < 60"
      using in_bounds_of_distance[OF assms(4), of ?y] by blast
    finally have "in_contact (snd (collisionTick mobile w b targets) ! i) \<longleftrightarrow>
        \<bar>?y - (rect_top ?r + rect_height ?r / 2)\<bar> < max 20 (rect_height ?r / 2)
        \<and> \<bar>?y - (rect_top ?r + rect_height ?r / 2)\<bar> < 60" .
    with False show ?thesis
      unfolding Let_def hb by simp
  qed
qed

theorem contact_iff_within_threshold_and_approach_bound_witness:
  "\<not> isPaused (beam_at 125) \<and> body (beam_at 125) = Some \<lparr> rect_top = 124, rect_bottom = 126, rect_height = 2 \<rparr>
   \<and> (0::nat) < length [title_target, tall_membrane]
   \<and> \<not> pruned False desktop ([title_target, tall_membrane] ! 0)
   \<and> rect_ok (rect ([title_target, tall_membrane] ! 0))
   \<and> \<bar>scanY \<lparr> rect_top = 124, rect_bottom = 126, rect_height = 2 \<rparr> - (100 + (140 - 100) / 2)\<bar> = 5
   \<and> in_contact (snd (collisionTick False desktop (beam_at 125) [title_target, tall_membrane]) ! 0)"
proof -
  have h1: "\<not> isPaused (beam_at 125)" by (simp add: beam_at_def)
  have h2: "body (beam_at 125) = Some \<lparr> rect_top = 124, rect_bottom = 126, rect_height = 2 \<rparr>"
    by (simp add: beam_at_def)
  have h3: "(0::nat) < length [title_target, tall_membrane]" by simp
  have h4: "\<not> pruned False desktop ([title_target, tall_membrane] ! 0)"
    by (simp add: pruned_def desktop_def title_target_def)
  have h5: "rect_ok (rect ([title_target, tall_membrane] ! 0))"
    by (simp add: rect_ok_def title_target_def)
  from contact_iff_within_threshold_and_approach_bound[OF h1 h2 h3 h5, of False desktop] h4
  show ?thesis using h1 h2 h5
    by (simp add: Let_def scanY_def title_target_def)
qed

text \<open>
  The claim C1 as the specification states it, contact exactly when the distance is less than
  max(20, half the height), fails for a region more than 120 pixels high. For a membrane with
  top 100 and bottom 300 (centre 200, half height 100) and the scan coordinate at 130, the
  distance 70 is less than the threshold 100, and the tick does not give the class
  \<^verbatim>\<open>beam-contact\<close>: the distance is not less than 60.
\<close>

theorem contact_iff_threshold_counterexample:
  "scanY \<lparr> rect_top = 129, rect_bottom = 131, rect_height = 2 \<rparr> = 130
   \<and> \<not> pruned False desktop tall_membrane
   \<and> \<bar>130 - (rect_top (rect tall_membrane)
              + (rect_bottom (rect tall_membrane) - rect_top (rect tall_membrane)) / 2)\<bar>
       < max 20 ((rect_bottom (rect tall_membrane) - rect_top (rect tall_membrane)) / 2)
   \<and> \<not> in_contact (snd (collisionTick False desktop (beam_at 130) [tall_membrane]) ! 0)"
  by (simp add: scanY_def pruned_def desktop_def tall_membrane_def beam_at_def collisionTick_def
      checkTarget_def Let_def in_contact_def classList_add_def classList_remove_def)

section \<open>Properties of the cooldown\<close>

subsection \<open>Lists of times\<close>






subsection \<open>The times of the triggers\<close>









subsection \<open>The triggers happen at times the clock gave\<close>





subsection \<open>The trigger of the audio toggle\<close>





subsection \<open>The two loops on the title\<close>















section \<open>Properties of the registry lookups\<close>

lemma find_distinct_key:
  assumes "distinct (map f xs)" and "x \<in> set xs"
  shows "find (\<lambda>y. f y = f x) xs = Some x"
  using assms
proof (induction xs)
  case Nil
  then show ?case by simp
next
  case (Cons a xs)
  show ?case
  proof (cases "a = x")
    case True
    then show ?thesis by simp
  next
    case False
    with Cons.prems have x: "x \<in> set xs" and d: "distinct (map f xs)" and "f a \<notin> f ` set xs"
      by auto
    then have "f a \<noteq> f x" by blast
    with Cons.IH[OF d x] show ?thesis by simp
  qed
qed

lemma getById_Some:
  "getById S i = Some sp \<Longrightarrow> sp \<in> set (registry S) \<and> specimen_id sp = i"
  by (auto simp: getById_def find_Some_iff)

lemma getById_None:
  "getById S i = None \<longleftrightarrow> (\<forall>sp \<in> set (registry S). specimen_id sp \<noteq> i)"
  by (auto simp: getById_def find_None_iff)

lemma getById_unique:
  assumes "distinct (map specimen_id (registry S))" and "sp \<in> set (registry S)"
  shows "getById S (specimen_id sp) = Some sp"
  unfolding getById_def using find_distinct_key[OF assms] .

lemma registry_ok_v30: "registry_ok (SPECIMENS_v30 tx)"
  by (simp add: registry_ok_def SPECIMENS_v30_def vacant_slots_def vacant_slot_def
      LEAK_WORM_847T_def upt_rec[of _ "numeral _"] upt_rec[of _ "Suc _"])


lemma registry_ok_v31: "registry_ok (SPECIMENS_v31 tx)"
  by (simp add: registry_ok_def SPECIMENS_v31_def vacant_slots_def vacant_slot_def
      LEAK_WORM_847T_def LEAK_WORM_575E_def upt_rec[of _ "numeral _"] upt_rec[of _ "Suc _"])

lemma registry_ok_v32: "registry_ok (SPECIMENS_v32 tx)"
  by (simp add: registry_ok_def SPECIMENS_v32_def vacant_slots_def vacant_slot_def
      LEAK_WORM_847T_def LEAK_WORM_575E_def LEAK_WORM_EROI_def
      upt_rec[of _ "numeral _"] upt_rec[of _ "Suc _"])

lemma getPopupContent_frame: "snd (getPopupContent S i) = S"
  by (simp add: getPopupContent_def split: option.splits)

lemma getPopupContent_contained:
  assumes ok: "registry_ok S"
  shows "fst (getPopupContent S i) \<noteq> None
           \<longleftrightarrow> (\<exists>sp \<in> set (registry S). specimen_id sp = i \<and> status sp = ''contained'')"
proof (cases "getById S i")
  case None
  then have "fst (getPopupContent S i) = None" by (simp add: getPopupContent_def)
  moreover from None have "\<forall>sp \<in> set (registry S). specimen_id sp \<noteq> i"
    by (simp add: getById_None)
  ultimately show ?thesis by blast
next
  case (Some sp)
  from getById_Some[OF Some] have mem: "sp \<in> set (registry S)" and idi: "specimen_id sp = i"
    by simp_all
  from ok have d: "distinct (map specimen_id (registry S))"
    and st: "\<forall>x \<in> set (registry S). status x = ''contained'' \<or> status x = ''vacant''"
    by (simp_all add: registry_ok_def list_all_iff)
  have only: "x = sp" if "x \<in> set (registry S)" and "specimen_id x = i" for x
  proof -
    from getById_unique[OF d that(1)] that(2) Some show ?thesis by simp
  qed
  show ?thesis
  proof (cases "status sp = ''vacant''")
    case True
    with Some have "fst (getPopupContent S i) = None" by (simp add: getPopupContent_def)
    moreover have "\<not> (\<exists>x \<in> set (registry S). specimen_id x = i \<and> status x = ''contained'')"
      using only True by auto
    ultimately show ?thesis by blast
  next
    case False
    with Some have "fst (getPopupContent S i) \<noteq> None" by (simp add: getPopupContent_def)
    moreover from False st mem have "status sp = ''contained''" by blast
    with mem idi have "\<exists>x \<in> set (registry S). specimen_id x = i \<and> status x = ''contained''"
      by blast
    ultimately show ?thesis by blast
  qed
qed

lemma getPopupContent_unknown:
  assumes "\<forall>sp \<in> set (registry S). specimen_id sp \<noteq> i"
  shows "fst (getPopupContent S i) = None"
proof -
  from assms have "getById S i = None" by (simp add: getById_None)
  then show ?thesis by (simp add: getPopupContent_def)
qed

lemma getPopupContent_vacant:
  assumes ok: "registry_ok S"
      and v: "\<exists>sp \<in> set (registry S). specimen_id sp = i \<and> status sp = ''vacant''"
  shows "fst (getPopupContent S i) = None"
proof -
  from v obtain sp where mem: "sp \<in> set (registry S)" and idi: "specimen_id sp = i"
      and vac: "status sp = ''vacant''"
    by blast
  from ok have d: "distinct (map specimen_id (registry S))" by (simp add: registry_ok_def)
  from getById_unique[OF d mem] idi have "getById S i = Some sp" by simp
  with vac show ?thesis by (simp add: getPopupContent_def)
qed

text \<open>The ids that have a popup, in each of the three registries.\<close>

lemma contained_ids_v30:
  "(\<exists>sp \<in> set (registry (SPECIMENS_v30 tx)). specimen_id sp = i \<and> status sp = ''contained'')
     \<longleftrightarrow> i = 1"
  by (auto simp: SPECIMENS_v30_def vacant_slots_def vacant_slot_def LEAK_WORM_847T_def)

lemma contained_ids_v31:
  "(\<exists>sp \<in> set (registry (SPECIMENS_v31 tx)). specimen_id sp = i \<and> status sp = ''contained'')
     \<longleftrightarrow> i = 1 \<or> i = 2"
  by (auto simp: SPECIMENS_v31_def vacant_slots_def vacant_slot_def LEAK_WORM_847T_def
      LEAK_WORM_575E_def)

lemma contained_ids_v32:
  "(\<exists>sp \<in> set (registry (SPECIMENS_v32 tx)). specimen_id sp = i \<and> status sp = ''contained'')
     \<longleftrightarrow> i = 1 \<or> i = 2 \<or> i = 3"
  by (auto simp: SPECIMENS_v32_def vacant_slots_def vacant_slot_def LEAK_WORM_847T_def
      LEAK_WORM_575E_def LEAK_WORM_EROI_def)

lemma popup_ids_of_the_three_registries:
  "fst (getPopupContent (SPECIMENS_v30 tx) i) \<noteq> None \<longleftrightarrow> i = 1"
  "fst (getPopupContent (SPECIMENS_v31 tx) i) \<noteq> None \<longleftrightarrow> i = 1 \<or> i = 2"
  "fst (getPopupContent (SPECIMENS_v32 tx) i) \<noteq> None \<longleftrightarrow> i = 1 \<or> i = 2 \<or> i = 3"
  by (simp_all only: getPopupContent_contained[OF registry_ok_v30] contained_ids_v30
      getPopupContent_contained[OF registry_ok_v31] contained_ids_v31
      getPopupContent_contained[OF registry_ok_v32] contained_ids_v32)

text \<open>
  C10. For a registry in which no id occurs twice and every status is \<^verbatim>\<open>contained\<close> or
  \<^verbatim>\<open>vacant\<close> (the three registries of the source are such), \<^verbatim>\<open>getPopupContent\<close> returns a
  popup exactly for the ids of the contained specimens; it returns \<^verbatim>\<open>null\<close> for an id the
  registry does not have and for the id of a vacant slot; and it leaves the
  \<^verbatim>\<open>SPECIMENS\<close> object, the registry with it, as it was.
\<close>

theorem getPopupContent_iff_contained:
  assumes "registry_ok S"
  shows "(fst (getPopupContent S i) \<noteq> None
            \<longleftrightarrow> (\<exists>sp \<in> set (registry S). specimen_id sp = i \<and> status sp = ''contained''))
       \<and> ((\<forall>sp \<in> set (registry S). specimen_id sp \<noteq> i) \<longrightarrow> fst (getPopupContent S i) = None)
       \<and> ((\<exists>sp \<in> set (registry S). specimen_id sp = i \<and> status sp = ''vacant'')
            \<longrightarrow> fst (getPopupContent S i) = None)
       \<and> snd (getPopupContent S i) = S"
  using getPopupContent_contained[OF assms, of i] getPopupContent_unknown[of S i]
    getPopupContent_vacant[OF assms, of i] getPopupContent_frame[of S i]
  by blast

theorem getPopupContent_iff_contained_witness:
  "registry_ok (SPECIMENS_v31 sample_prose)
   \<and> fst (getPopupContent (SPECIMENS_v31 sample_prose) 2)
       = Some \<lparr> popup_title = ''SPECIMEN CONTAINMENT PROTOCOL'', popup_code = ''LEAK-WORM-575E'',
                popup_status = ''CONTAINED'',
                popup_classification = Some ''Interactive Narrative'',
                popup_deployed = Some ''October 2025'', popup_description = Some ''d2'',
                popup_warning = Some ''w2'', popup_password = Some ''pw'',
                popup_url = Some ''https://lookaway-archive.github.io/leak-worm-575E/'',
                popup_buttons =
                  [\<lparr> button_text = ''OBSERVE SPECIMEN'', button_action = ''navigate'',
                     button_primary = True \<rparr>,
                   \<lparr> button_text = ''CANCEL'', button_action = ''close'',
                     button_primary = False \<rparr>] \<rparr>
   \<and> (\<exists>sp \<in> set (registry (SPECIMENS_v31 sample_prose)).
         specimen_id sp = 2 \<and> status sp = ''contained'')
   \<and> fst (getPopupContent (SPECIMENS_v31 sample_prose) 7) = None
   \<and> fst (getPopupContent (SPECIMENS_v31 sample_prose) 13) = None
   \<and> snd (getPopupContent (SPECIMENS_v31 sample_prose) 2) = SPECIMENS_v31 sample_prose"
proof -
  have ok: "registry_ok (SPECIMENS_v31 sample_prose)" by (rule registry_ok_v31)
  have p: "fst (getPopupContent (SPECIMENS_v31 sample_prose) 2)
       = Some \<lparr> popup_title = ''SPECIMEN CONTAINMENT PROTOCOL'', popup_code = ''LEAK-WORM-575E'',
                popup_status = ''CONTAINED'',
                popup_classification = Some ''Interactive Narrative'',
                popup_deployed = Some ''October 2025'', popup_description = Some ''d2'',
                popup_warning = Some ''w2'', popup_password = Some ''pw'',
                popup_url = Some ''https://lookaway-archive.github.io/leak-worm-575E/'',
                popup_buttons =
                  [\<lparr> button_text = ''OBSERVE SPECIMEN'', button_action = ''navigate'',
                     button_primary = True \<rparr>,
                   \<lparr> button_text = ''CANCEL'', button_action = ''close'',
                     button_primary = False \<rparr>] \<rparr>"
    by code_simp
  have v: "\<exists>sp \<in> set (registry (SPECIMENS_v31 sample_prose)).
             specimen_id sp = 7 \<and> status sp = ''vacant''"
    by code_simp
  have u: "\<forall>sp \<in> set (registry (SPECIMENS_v31 sample_prose)). specimen_id sp \<noteq> 13"
    by code_simp
  from getPopupContent_iff_contained[OF ok, of 2] p
  have c: "\<exists>sp \<in> set (registry (SPECIMENS_v31 sample_prose)).
             specimen_id sp = 2 \<and> status sp = ''contained''"
    and f: "snd (getPopupContent (SPECIMENS_v31 sample_prose) 2) = SPECIMENS_v31 sample_prose"
    by simp_all
  from getPopupContent_iff_contained[OF ok, of 7] v
  have n7: "fst (getPopupContent (SPECIMENS_v31 sample_prose) 7) = None" by blast
  from getPopupContent_iff_contained[OF ok, of 13] u
  have n13: "fst (getPopupContent (SPECIMENS_v31 sample_prose) 13) = None" by blast
  from ok p c n7 n13 f show ?thesis by simp
qed

end
